theory Spec2Isabelle
  imports Main "HOL-Library.AList"
begin

section \<open>Python values\<close>

text \<open>
  Every record of the program is a Python dictionary that is stored as JSON text and read
  back, so the values of the model are JSON values. A dictionary keeps its insertion order:
  it is an association list, looked up with \<open>map_of\<close> and written with \<open>AList.update\<close>.
  Numbers are integers (the program produces no floats) and strings are read as ASCII.
\<close>

datatype json =
    JNull
  | JBool bool
  | JInt int
  | JStr string
  | JList "json list"
  | JDict "(string \<times> json) list"

text \<open>An exception is its class and its message, \<open>str(e)\<close>.\<close>

datatype exn =
    AttributeError string
  | TypeError string
  | ValueError string
  | UnboundLocalError string
  | OSError string
  | ExternalError string

fun exn_str :: "exn \<Rightarrow> string" where
  "exn_str (AttributeError m) = m"
| "exn_str (TypeError m) = m"
| "exn_str (ValueError m) = m"
| "exn_str (UnboundLocalError m) = m"
| "exn_str (OSError m) = m"
| "exn_str (ExternalError m) = m"

text \<open>Statements in sequence: the first exception ends the block.\<close>

fun bind_exn :: "exn + 'a \<Rightarrow> ('a \<Rightarrow> exn + 'b) \<Rightarrow> exn + 'b" where
  "bind_exn (Inl e) f = Inl e"
| "bind_exn (Inr x) f = f x"

fun sequence_exn :: "(exn + 'a) list \<Rightarrow> exn + 'a list" where
  "sequence_exn [] = Inr []"
| "sequence_exn (m # ms) =
     (case m of
        Inl e \<Rightarrow> Inl e
      | Inr x \<Rightarrow> (case sequence_exn ms of Inl e \<Rightarrow> Inl e | Inr xs \<Rightarrow> Inr (x # xs)))"

subsection \<open>Formatting\<close>

definition digit_char :: "nat \<Rightarrow> char" where
  "digit_char n = ''0123456789abcdef'' ! n"

function str_nat :: "nat \<Rightarrow> string" where
  "str_nat n = (if n < 10 then [digit_char n] else str_nat (n div 10) @ [digit_char (n mod 10)])"
  by pat_completeness auto
termination
  by (relation "measure id") auto

declare str_nat.simps [simp del]

definition str_int :: "int \<Rightarrow> string" where
  "str_int i = (if i < 0 then ''-'' @ str_nat (nat (- i)) else str_nat (nat i))"

definition quote :: "string \<Rightarrow> string" where
  "quote s = [CHR 0x27] @ s @ [CHR 0x27]"

fun join :: "string \<Rightarrow> string list \<Rightarrow> string" where
  "join sep [] = []"
| "join sep [s] = s"
| "join sep (s # t # ss) = s @ sep @ join sep (t # ss)"

text \<open>
  \<open>repr\<close> of a string: double quotes when the text has an apostrophe and no double quote,
  single quotes otherwise; the quote, the backslash and the unprintable characters escaped.
\<close>

definition repr_char :: "char \<Rightarrow> char \<Rightarrow> string" where
  "repr_char q c =
     (if c = q \<or> c = CHR 0x5C then [CHR 0x5C, c]
      else if c = CHR 0x0A then [CHR 0x5C, CHR ''n'']
      else if c = CHR 0x0D then [CHR 0x5C, CHR ''r'']
      else if c = CHR 0x09 then [CHR 0x5C, CHR ''t'']
      else if (of_char c :: nat) < 32 \<or> 127 \<le> (of_char c :: nat)
        then [CHR 0x5C, CHR ''x'', digit_char (of_char c div 16), digit_char (of_char c mod 16)]
      else [c])"

definition repr_str :: "string \<Rightarrow> string" where
  "repr_str s =
     (let q = (if CHR 0x27 \<in> set s \<and> CHR 0x22 \<notin> set s then CHR 0x22 else CHR 0x27)
      in [q] @ concat (map (repr_char q) s) @ [q])"

fun py_repr :: "json \<Rightarrow> string" where
  "py_repr JNull = ''None''"
| "py_repr (JBool b) = (if b then ''True'' else ''False'')"
| "py_repr (JInt i) = str_int i"
| "py_repr (JStr s) = repr_str s"
| "py_repr (JList xs) = ''['' @ join '', '' (map py_repr xs) @ '']''"
| "py_repr (JDict kvs) =
     ''{'' @ join '', '' (map (\<lambda>(k, v). repr_str k @ '': '' @ py_repr v) kvs) @ ''}''"

text \<open>\<open>str(v)\<close>, which is what an f-string writes for \<open>{v}\<close>.\<close>

fun py_str :: "json \<Rightarrow> string" where
  "py_str (JStr s) = s"
| "py_str v = py_repr v"

subsection \<open>Operations on values\<close>

fun type_name :: "json \<Rightarrow> string" where
  "type_name JNull = ''NoneType''"
| "type_name (JBool b) = ''bool''"
| "type_name (JInt i) = ''int''"
| "type_name (JStr s) = ''str''"
| "type_name (JList xs) = ''list''"
| "type_name (JDict kvs) = ''dict''"

definition no_attribute :: "json \<Rightarrow> string \<Rightarrow> exn" where
  "no_attribute v a =
     AttributeError (quote (type_name v) @ '' object has no attribute '' @ quote a)"

text \<open>\<open>v.get(k, d)\<close>: only a dictionary has the method.\<close>

fun py_get :: "json \<Rightarrow> string \<Rightarrow> json \<Rightarrow> exn + json" where
  "py_get (JDict kvs) k d = Inr (case map_of kvs k of None \<Rightarrow> d | Some v \<Rightarrow> v)"
| "py_get v k d = Inl (no_attribute v ''get'')"

fun is_dict :: "json \<Rightarrow> bool" where
  "is_dict (JDict kvs) = True"
| "is_dict v = False"

text \<open>Truth value of a value, as \<open>if v\<close> and \<open>not v\<close> test it.\<close>

fun truthy :: "json \<Rightarrow> bool" where
  "truthy JNull = False"
| "truthy (JBool b) = b"
| "truthy (JInt i) = (i \<noteq> 0)"
| "truthy (JStr s) = (s \<noteq> [])"
| "truthy (JList xs) = (xs \<noteq> [])"
| "truthy (JDict kvs) = (kvs \<noteq> [])"

text \<open>\<open>range(v)\<close>: an integer (or a boolean, which is one) gives \<open>0, ..., v - 1\<close>.\<close>

fun py_range :: "json \<Rightarrow> exn + nat list" where
  "py_range (JInt n) = Inr [0..<nat n]"
| "py_range (JBool b) = Inr [0..<(if b then 1 else 0)]"
| "py_range v =
     Inl (TypeError (quote (type_name v) @ '' object cannot be interpreted as an integer''))"

text \<open>The elements a \<open>for\<close> loop sees: of a string its characters, of a dictionary its keys.\<close>

fun py_iter :: "json \<Rightarrow> exn + json list" where
  "py_iter (JList xs) = Inr xs"
| "py_iter (JStr s) = Inr (map (\<lambda>c. JStr [c]) s)"
| "py_iter (JDict kvs) = Inr (map (\<lambda>kv. JStr (fst kv)) kvs)"
| "py_iter v = Inl (TypeError (quote (type_name v) @ '' object is not iterable''))"

fun py_len :: "json \<Rightarrow> exn + nat" where
  "py_len (JList xs) = Inr (length xs)"
| "py_len (JStr s) = Inr (length s)"
| "py_len (JDict kvs) = Inr (length kvs)"
| "py_len v = Inl (TypeError (''object of type '' @ quote (type_name v) @ '' has no len()''))"

text \<open>\<open>str.title()\<close> on ASCII text.\<close>

definition is_lower :: "char \<Rightarrow> bool" where
  "is_lower c = (97 \<le> (of_char c :: nat) \<and> (of_char c :: nat) \<le> 122)"

definition is_upper :: "char \<Rightarrow> bool" where
  "is_upper c = (65 \<le> (of_char c :: nat) \<and> (of_char c :: nat) \<le> 90)"

definition to_upper :: "char \<Rightarrow> char" where
  "to_upper c = (if is_lower c then char_of ((of_char c :: nat) - 32) else c)"

definition to_lower :: "char \<Rightarrow> char" where
  "to_lower c = (if is_upper c then char_of ((of_char c :: nat) + 32) else c)"

fun title_from :: "bool \<Rightarrow> string \<Rightarrow> string" where
  "title_from prev [] = []"
| "title_from prev (c # cs) =
     (if is_lower c then (if prev then c else to_upper c) # title_from True cs
      else if is_upper c then (if prev then to_lower c else c) # title_from True cs
      else c # title_from False cs)"

definition title :: "string \<Rightarrow> string" where
  "title s = title_from False s"

section \<open>Offer generator (ai_engine.py)\<close>

text \<open>
  \<open>generate_upsell(main_product_info, upsell_type, position)\<close>. The caller passes the
  literals \<open>'upsell'\<close> and \<open>'downsell'\<close> and an integer. The body of the \<open>try\<close> reads
  two keys and returns one of six literal dictionaries; the handler returns the default
  offer. Logging is the only effect; it is left out here and written out in
  \<open>generate_upsell_logging\<close> below.
\<close>

definition default_offer :: "exn \<Rightarrow> string \<Rightarrow> int \<Rightarrow> json" where
  "default_offer e upsell_type position = JDict
     [(''error'', JStr (exn_str e)),
      (''offer_type'', JStr upsell_type),
      (''position'', JInt position),
      (''product_name'', JStr (''Default '' @ title upsell_type)),
      (''headline'', JStr (''Add this '' @ upsell_type @ '' to your order'')),
      (''description'', JStr ''Could not generate description''),
      (''key_benefits'', JList [JStr ''Benefit 1'', JStr ''Benefit 2'', JStr ''Benefit 3'']),
      (''main_feature'', JStr ''Main feature''),
      (''price'', JInt (if upsell_type = ''upsell'' then 97 else 47)),
      (''price_description'', JStr ''One-time payment''),
      (''reason_to_buy'', JStr ''Great value''),
      (''scarcity_element'', JStr ''Limited time offer''),
      (''cta_text'', JStr ''Add to Order'')]"

definition sample_offer :: "string \<Rightarrow> string \<Rightarrow> int \<Rightarrow> json" where
  "sample_offer brand_name upsell_type position =
    (if upsell_type = ''upsell'' then
      (if position = 1 then JDict
        [(''offer_type'', JStr ''upsell''),
         (''position'', JInt position),
         (''product_name'', JStr (brand_name @ '' Pro Edition'')),
         (''headline'', JStr (''WAIT! Upgrade to '' @ brand_name @ '' Pro for Maximum Results'')),
         (''description'', JStr (''The Pro Edition includes all features of the standard ''
            @ brand_name @ '' plus advanced capabilities for power users.'')),
         (''key_benefits'', JList
           [JStr ''Access to premium training resources'',
            JStr ''Direct 1-on-1 coaching sessions'',
            JStr ''Priority support response'',
            JStr ''Advanced customization options'',
            JStr ''Exclusive community access'']),
         (''main_feature'', JStr ''Personalized implementation strategy call with a senior expert''),
         (''price'', JInt 297),
         (''price_description'', JStr ''One-time upgrade payment (save 50% today only)''),
         (''reason_to_buy'', JStr ''Triple your results with expert guidance and premium resources''),
         (''scarcity_element'', JStr ''This special upgrade price expires in 15 minutes''),
         (''cta_text'', JStr ''Yes, Upgrade My Order to Pro!'')]
       else if position = 2 then JDict
        [(''offer_type'', JStr ''upsell''),
         (''position'', JInt position),
         (''product_name'', JStr (brand_name @ '' Implementation Accelerator'')),
         (''headline'', JStr (''Get Results 3X Faster with the '' @ brand_name
            @ '' Implementation Accelerator'')),
         (''description'', JStr ''This done-for-you implementation package helps you fast-track your success by handling the technical setup and customization.''),
         (''key_benefits'', JList
           [JStr ''Complete system setup by our expert team'',
            JStr ''Custom configuration for your specific needs'',
            JStr ''Technical roadblocks removed before you start'',
            JStr ''Ready-to-use templates and frameworks'']),
         (''main_feature'', JStr ''White-glove implementation service with 48-hour turnaround''),
         (''price'', JInt 397),
         (''price_description'', JStr ''One-time service fee (50% less than our standard rate)''),
         (''reason_to_buy'', JStr ''Skip the learning curve and get straight to results''),
         (''scarcity_element'', JStr ''Limited to just 10 clients this month''),
         (''cta_text'', JStr ''Yes, Fast-Track My Success!'')]
       else JDict
        [(''offer_type'', JStr ''upsell''),
         (''position'', JInt position),
         (''product_name'', JStr (brand_name @ '' Enterprise Solution'')),
         (''headline'', JStr (''Scale Your Success with the '' @ brand_name @ '' Enterprise Package'')),
         (''description'', JStr (''The complete '' @ brand_name
            @ '' system plus team licenses, advanced integrations, and enterprise-grade support.'')),
         (''key_benefits'', JList
           [JStr ''Multiple user licenses for your entire team'',
            JStr ''Advanced API integrations with your existing tools'',
            JStr ''Custom reporting and analytics'',
            JStr ''Quarterly strategy consultations'']),
         (''main_feature'', JStr ''Unlimited team access with centralized management console''),
         (''price'', JInt 997),
         (''price_description'', JStr ''Annual subscription (less than $3 per day)''),
         (''reason_to_buy'', JStr ''Scale the system across your entire organization''),
         (''scarcity_element'', JStr ''Early adopter pricing - will increase by 40% next month''),
         (''cta_text'', JStr ''Upgrade to Enterprise'')])
     else
      (if position = 1 then JDict
        [(''offer_type'', JStr ''downsell''),
         (''position'', JInt position),
         (''product_name'', JStr (brand_name @ '' Essentials'')),
         (''headline'', JStr (''Get Started with '' @ brand_name @ '' Essentials for a Lower Investment'')),
         (''description'', JStr (''The core features of '' @ brand_name
            @ '' at a more accessible price point.'')),
         (''key_benefits'', JList
           [JStr ''Core system fundamentals'',
            JStr ''Step-by-step implementation guides'',
            JStr ''Community support access'',
            JStr ''Key resources library'']),
         (''main_feature'', JStr ''Complete foundations course for beginners''),
         (''price'', JInt 197),
         (''price_description'', JStr ''One-time payment with option to upgrade later''),
         (''reason_to_buy'', JStr ''Get started with the essential features at a lower investment''),
         (''scarcity_element'', JStr ''Special introductory pricing for first-time customers only''),
         (''cta_text'', JStr ''Yes, I Want the Essentials Package!'')]
       else if position = 2 then JDict
        [(''offer_type'', JStr ''downsell''),
         (''position'', JInt position),
         (''product_name'', JStr (brand_name @ '' Self-Study Edition'')),
         (''headline'', JStr (''Access the '' @ brand_name @ '' System at Your Own Pace'')),
         (''description'', JStr ''The self-study version gives you all the content without the premium support elements.''),
         (''key_benefits'', JList
           [JStr ''Complete system access'',
            JStr ''Digital resource library'',
            JStr ''Self-paced learning modules'',
            JStr ''Email support'']),
         (''main_feature'', JStr ''Digital-only access to the entire system''),
         (''price'', JInt 147),
         (''price_description'', JStr ''One-time payment (60% off the full system)''),
         (''reason_to_buy'', JStr ''Get all the content at a reduced price if you are self-motivated''),
         (''scarcity_element'', JStr ''This special self-study offer expires in 24 hours''),
         (''cta_text'', JStr ''Yes, Give Me Self-Study Access'')]
       else JDict
        [(''offer_type'', JStr ''downsell''),
         (''position'', JInt position),
         (''product_name'', JStr (brand_name @ '' Starter Kit'')),
         (''headline'', JStr (''Try the '' @ brand_name @ '' Starter Kit Risk-Free'')),
         (''description'', JStr ''A simplified version to help you get started and experience initial results.''),
         (''key_benefits'', JList
           [JStr ''Core strategies and techniques'',
            JStr ''Quick-start implementation guide'',
            JStr ''Basic support access'',
            JStr ''Foundational templates'']),
         (''main_feature'', JStr ''90-day quick-start roadmap''),
         (''price'', JInt 97),
         (''price_description'', JStr ''One-time payment with 60-day guarantee''),
         (''reason_to_buy'', JStr ''Experience initial results without a larger investment''),
         (''scarcity_element'', JStr ''First-time customer special - not available after exit''),
         (''cta_text'', JStr ''Yes, I Want the Starter Kit!'')]))"

definition generate_upsell :: "json \<Rightarrow> string \<Rightarrow> int \<Rightarrow> json" where
  "generate_upsell main_product_info upsell_type position =
    (case bind_exn (py_get main_product_info ''product_type'' (JStr ''product'')) (\<lambda>product_type.
          bind_exn (py_get main_product_info ''brand_name'' (JStr ''Our Product'')) (\<lambda>brand_name.
          Inr (sample_offer (py_str brand_name) upsell_type position))) of
       Inr offer \<Rightarrow> offer
     | Inl e \<Rightarrow> default_offer e upsell_type position)"




section \<open>Funnel composer and flow graph (funnel_generator.py)\<close>

text \<open>
  \<open>design_funnel_flow(main_page, upsells, downsells)\<close> appends one node for the main page,
  one for each upsell, one for each downsell and one for the thank-you page. The index
  \<open>i\<close> of \<open>enumerate\<close> starts at 0; \<open>len(upsells) - 1\<close> is an integer subtraction.
\<close>

definition main_node :: json where
  "main_node = JDict
     [(''id'', JStr ''main''),
      (''type'', JStr ''main''),
      (''name'', JStr ''Main Sales Page''),
      (''accept_action'', JStr ''to_upsell_1''),
      (''decline_action'', JStr ''exit'')]"

definition upsell_node :: "json list \<Rightarrow> nat \<Rightarrow> json \<Rightarrow> exn + json" where
  "upsell_node upsells i upsell =
     bind_exn (py_get upsell ''product_name'' (JStr (''Upsell '' @ str_nat (i + 1)))) (\<lambda>name.
     Inr (JDict
       [(''id'', JStr (''upsell_'' @ str_nat (i + 1))),
        (''type'', JStr ''upsell''),
        (''name'', name),
        (''accept_action'', JStr (if int i < int (length upsells) - 1
           then ''to_upsell_'' @ str_nat (i + 2) else ''to_thank_you'')),
        (''decline_action'', JStr (''to_downsell_'' @ str_nat (i + 1)))]))"

definition downsell_node :: "json list \<Rightarrow> nat \<Rightarrow> json \<Rightarrow> exn + json" where
  "downsell_node upsells i downsell =
     (let next_action = (if int i < int (length upsells) - 1
            then ''to_upsell_'' @ str_nat (i + 2) else ''to_thank_you'')
      in bind_exn (py_get downsell ''product_name'' (JStr (''Downsell '' @ str_nat (i + 1)))) (\<lambda>name.
         Inr (JDict
           [(''id'', JStr (''downsell_'' @ str_nat (i + 1))),
            (''type'', JStr ''downsell''),
            (''name'', name),
            (''accept_action'', JStr next_action),
            (''decline_action'', JStr next_action)])))"

definition thank_you_node :: json where
  "thank_you_node = JDict
     [(''id'', JStr ''thank_you''),
      (''type'', JStr ''thank_you''),
      (''name'', JStr ''Thank You Page''),
      (''accept_action'', JStr ''exit''),
      (''decline_action'', JStr ''exit'')]"

definition design_funnel_flow :: "json \<Rightarrow> json list \<Rightarrow> json list \<Rightarrow> exn + json list" where
  "design_funnel_flow main_page upsells downsells =
     bind_exn (sequence_exn (map (\<lambda>(i, upsell). upsell_node upsells i upsell)
                 (enumerate 0 upsells))) (\<lambda>upsell_items.
     bind_exn (sequence_exn (map (\<lambda>(i, downsell). downsell_node upsells i downsell)
                 (enumerate 0 downsells))) (\<lambda>downsell_items.
     Inr ([main_node] @ upsell_items @ downsell_items @ [thank_you_node])))"

text \<open>
  \<open>generate_funnel(analysis, customizations)\<close>. The main page comes from \<open>generate_copy\<close>,
  whose whole body is inside a \<open>try\<close> with a literal fallback, so it always returns; the
  flow never reads the page, and the function is a parameter here. Nothing in
  \<open>generate_funnel\<close> is caught: a fault of \<open>get\<close> or \<open>range\<close> reaches the caller.
\<close>

definition generate_funnel :: "(json \<Rightarrow> json \<Rightarrow> json) \<Rightarrow> json \<Rightarrow> json \<Rightarrow> exn + json" where
  "generate_funnel generate_copy analysis customizations =
    (let main_page = generate_copy analysis customizations in
     bind_exn (py_get analysis ''product_type'' (JStr ''product'')) (\<lambda>product_type.
     bind_exn (py_get customizations ''brand_name'' (JStr ''Our Product'')) (\<lambda>brand_name.
     let main_product_info = JDict [(''product_type'', product_type), (''brand_name'', brand_name)] in
     bind_exn (py_get customizations ''num_upsells'' (JInt 10)) (\<lambda>num_upsells.
     bind_exn (py_range num_upsells) (\<lambda>r.
     let upsells = map (\<lambda>i. generate_upsell main_product_info ''upsell'' (int i + 1)) r in
     bind_exn (py_get customizations ''num_downsells'' (JInt 10)) (\<lambda>num_downsells.
     bind_exn (py_range num_downsells) (\<lambda>r.
     let downsells = map (\<lambda>i. generate_upsell main_product_info ''downsell'' (int i + 1)) r in
     bind_exn (design_funnel_flow main_page upsells downsells) (\<lambda>funnel_flow.
     Inr (JDict
       [(''main_page'', main_page),
        (''upsells'', JList upsells),
        (''downsells'', JList downsells),
        (''funnel_flow'', JList funnel_flow),
        (''customizations'', customizations),
        (''base_analysis'', analysis)])))))))))"

subsection \<open>Reading a flow graph\<close>

text \<open>
  What the properties of a flow graph speak about: the field of a node, the declared
  ids, and the targets \<open>X\<close> of the actions \<open>to_X\<close>. The exported script navigates the same
  way: it strips \<open>to_\<close> from the action and opens that page.
\<close>

definition node_field :: "string \<Rightarrow> json \<Rightarrow> json" where
  "node_field k node =
     (case node of
        JDict kvs \<Rightarrow> (case map_of kvs k of Some v \<Rightarrow> v | None \<Rightarrow> JNull)
      | _ \<Rightarrow> JNull)"

definition node_ids :: "json list \<Rightarrow> json list" where
  "node_ids flow = map (node_field ''id'') flow"

definition nodes_of_type :: "string \<Rightarrow> json list \<Rightarrow> json list" where
  "nodes_of_type t flow = filter (\<lambda>node. node_field ''type'' node = JStr t) flow"

definition action_target :: "json \<Rightarrow> json list" where
  "action_target a =
     (case a of
        JStr s \<Rightarrow> (if take 3 s = ''to_'' then [JStr (drop 3 s)] else [])
      | _ \<Rightarrow> [])"

definition node_targets :: "json \<Rightarrow> json list" where
  "node_targets node =
     action_target (node_field ''accept_action'' node)
       @ action_target (node_field ''decline_action'' node)"

definition dangling_targets :: "json list \<Rightarrow> json list" where
  "dangling_targets flow =
     filter (\<lambda>x. x \<notin> set (node_ids flow)) (concat (map node_targets flow))"

definition funnel_flow_of :: "json \<Rightarrow> json list" where
  "funnel_flow_of funnel = (case node_field ''funnel_flow'' funnel of JList flow \<Rightarrow> flow | _ \<Rightarrow> [])"

definition dict_set :: "string \<Rightarrow> json \<Rightarrow> json \<Rightarrow> json" where
  "dict_set k v d = (case d of JDict kvs \<Rightarrow> JDict (AList.update k v kvs) | _ \<Rightarrow> d)"

section \<open>Page analyzer (ai_engine.py)\<close>

text \<open>
  \<open>analyze_page(page_data, url)\<close>. The URL is the string the form sent. The library call
  \<open>urlparse(url).netloc\<close> is a parameter: it gives the host or raises (\<open>ValueError\<close> for
  a malformed bracketed host). The handler builds its dictionary from literals, \<open>url\<close> and
  \<open>str(e)\<close>, so nothing can raise there.
\<close>

definition analyze_page :: "(string \<Rightarrow> exn + string) \<Rightarrow> json \<Rightarrow> string \<Rightarrow> json" where
  "analyze_page urlparse_netloc page_data url =
    (case bind_exn (urlparse_netloc url) (\<lambda>domain.
          bind_exn (py_get page_data ''title'' (JStr (''Sales Page for '' @ domain))) (\<lambda>title.
          Inr (JDict
            [(''url'', JStr url),
             (''title'', title),
             (''product_type'', JStr ''Digital Course & Membership''),
             (''main_hook'', JStr (''Transform your results with this premium solution from '' @ domain)),
             (''target_audience'', JStr ''Professionals and businesses looking to improve efficiency and results''),
             (''key_benefits'', JList
               [JStr ''Save time and increase productivity'',
                JStr ''Improve results with proven systems'',
                JStr ''Access exclusive resources and community'',
                JStr ''Learn from industry experts'',
                JStr ''Implement strategies that actually work'',
                JStr ''Get personal support and guidance'',
                JStr ''Stay ahead of competitors'',
                JStr ''Reduce costs and increase ROI'',
                JStr ''Scale your operations efficiently'',
                JStr ''Eliminate common frustrations and bottlenecks'']),
             (''pain_points'', JList
               [JStr ''Lack of time to implement complex solutions'',
                JStr ''Frustration with inconsistent results'',
                JStr ''Overwhelmed by too many options and information'',
                JStr ''Previous solutions that promised but didn't deliver'',
                JStr ''High costs with minimal returns'']),
             (''unique_selling_points'', JList
               [JStr ''Proprietary system developed by industry leaders'',
                JStr ''Comprehensive solution with ongoing support'',
                JStr ''Proven results with case studies and testimonials'',
                JStr ''Exclusive community access for networking'',
                JStr ''Step-by-step implementation guidance'']),
             (''pricing_strategy'', JStr ''Tiered pricing with limited-time discounts to create urgency. Multiple package options with increasing value. One-time payment structure with bonus offers.''),
             (''cta_strategy'', JStr ''Strong, direct calls-to-action with urgency elements. Multiple CTAs throughout the page. Form submissions to capture leads.''),
             (''persuasion_techniques'', JList
               [JStr ''Social proof through testimonials'',
                JStr ''Scarcity with limited-time offers'',
                JStr ''Authority positioning with expert credentials'',
                JStr ''Risk reversal with guarantees'',
                JStr ''Reciprocity through bonus offerings'',
                JStr ''FOMO (Fear of Missing Out)'']),
             (''structure_analysis'', JStr ''Classic sales page with a strong headline, problem-agitation-solution format, feature/benefit sections, social proof, pricing options, and multiple CTAs.''),
             (''content_tone'', JStr ''Professional yet conversational. Authoritative while remaining accessible. High-energy with emphasis on transformation and results.''),
             (''suggested_improvements'', JList
               [JStr ''Add more specific case studies with measurable results'',
                JStr ''Include video testimonials for increased credibility'',
                JStr ''Create more personalized sections for different audience segments'',
                JStr ''Strengthen the guarantee to reduce perceived risk'',
                JStr ''Add an FAQ section to address common objections'',
                JStr ''Improve mobile responsiveness for better conversion'',
                JStr ''Add exit-intent popups to capture leaving visitors'',
                JStr ''Include more precise benefit quantification''])]))) of
       Inr analysis \<Rightarrow> analysis
     | Inl e \<Rightarrow> JDict
         [(''url'', JStr url),
          (''error'', JStr (exn_str e)),
          (''product_type'', JStr ''Unknown''),
          (''main_hook'', JStr ''Could not analyze''),
          (''target_audience'', JStr ''Unknown''),
          (''key_benefits'', JList []),
          (''pain_points'', JList []),
          (''unique_selling_points'', JList []),
          (''pricing_strategy'', JStr ''Unknown''),
          (''cta_strategy'', JStr ''Unknown''),
          (''persuasion_techniques'', JList []),
          (''structure_analysis'', JStr ''Failed to analyze''),
          (''content_tone'', JStr ''Unknown''),
          (''suggested_improvements'', JList [])])"

text \<open>The fields of the Analysis record, as the returned dictionary of the normal path has them.\<close>

definition analysis_fields :: "string list" where
  "analysis_fields =
     [''url'', ''title'', ''product_type'', ''main_hook'', ''target_audience'', ''key_benefits'',
      ''pain_points'', ''unique_selling_points'', ''pricing_strategy'', ''cta_strategy'',
      ''persuasion_techniques'', ''structure_analysis'', ''content_tone'',
      ''suggested_improvements'']"

definition dict_keys :: "json \<Rightarrow> string list" where
  "dict_keys d = (case d of JDict kvs \<Rightarrow> map fst kvs | _ \<Rightarrow> [])"

section \<open>Email sequence generator (email_generator.py)\<close>

text \<open>
  The request to the text-generation service is a parameter \<open>chat\<close>: given the prompt it
  gives \<open>response.choices[0].message.content\<close> (a string or \<open>None\<close>) or raises. \<open>json.loads\<close>
  is the parameter \<open>loads\<close>. The prompt is the text of the source.
\<close>

definition email_prompt :: \<open>string \<Rightarrow> string \<Rightarrow> string \<Rightarrow> string \<Rightarrow> string \<Rightarrow> string \<Rightarrow> string\<close> where
  \<open>email_prompt brand_name product_headline benefits sequence_type email_style num_emails =
     ''\<newline>''
     @ ''        Generate a complete email sequence for this product:\<newline>''
     @ ''        \<newline>''
     @ ''        Brand Name: '' @ brand_name @ ''\<newline>''
     @ ''        Product Headline: '' @ product_headline @ ''\<newline>''
     @ ''        \<newline>''
     @ ''        Key Benefits:\<newline>''
     @ ''        '' @ benefits @ ''\<newline>''
     @ ''        \<newline>''
     @ ''        Sequence Type: '' @ sequence_type @ '' (Options: sales, nurture, onboarding, abandoned cart)\<newline>''
     @ ''        Email Style: '' @ email_style @ '' (Options: conversational, formal, story-based, direct)\<newline>''
     @ ''        Number of Emails: '' @ num_emails @ ''\<newline>''
     @ ''        \<newline>''
     @ ''        Please generate a complete email sequence with these details in JSON format:\<newline>''
     @ ''        1. sequence_name: A name for this email sequence\<newline>''
     @ ''        2. sequence_type: The type of sequence (sales, nurture, etc.)\<newline>''
     @ ''        3. purpose: The overall purpose of this sequence\<newline>''
     @ ''        4. timing: When each email should be sent (e.g., "Day 1", "Day 3", etc.)\<newline>''
     @ ''        5. emails: An array of email objects, each containing:\<newline>''
     @ ''            a. subject: Email subject line\<newline>''
     @ ''            b. body: Complete email body\<newline>''
     @ ''            c. purpose: The specific purpose of this email\<newline>''
     @ ''            d. call_to_action: The main call to action in this email\<newline>''
     @ ''        \<newline>''
     @ ''        Return your response in valid JSON format.\<newline>''
     @ ''        ''\<close>

definition upsell_prompt :: \<open>string \<Rightarrow> string\<close> where
  \<open>upsell_prompt descriptions =
     ''\<newline>''
     @ ''                Upsell Products to Include in Some Emails:\<newline>''
     @ ''                '' @ descriptions @ ''\<newline>''
     @ ''                ''\<close>

text \<open>\<open>min(v, 20)\<close>: an integer is compared; \<open>True\<close> and \<open>False\<close> are the integers 1 and 0.\<close>

fun py_min20 :: "json \<Rightarrow> exn + json" where
  "py_min20 (JInt i) = Inr (JInt (min i 20))"
| "py_min20 (JBool b) = Inr (JBool b)"
| "py_min20 v = Inl (TypeError (quote ''<'' @ '' not supported between instances of ''
     @ quote ''int'' @ '' and '' @ quote (type_name v)))"

text \<open>\<open>", ".join(items)\<close> takes strings only.\<close>

fun join_items :: "nat \<Rightarrow> json list \<Rightarrow> exn + string list" where
  "join_items i [] = Inr []"
| "join_items i (JStr s # vs) =
     (case join_items (i + 1) vs of Inl e \<Rightarrow> Inl e | Inr ss \<Rightarrow> Inr (s # ss))"
| "join_items i (v # vs) =
     Inl (TypeError (''sequence item '' @ str_nat i @ '': expected str instance, ''
       @ type_name v @ '' found''))"

definition py_join :: "string \<Rightarrow> json list \<Rightarrow> exn + string" where
  "py_join sep vs = bind_exn (join_items 0 vs) (\<lambda>ss. Inr (join sep ss))"

text \<open>\<open>v[:3]\<close>, then the elements the loop sees.\<close>

fun py_first3 :: "json \<Rightarrow> exn + json list" where
  "py_first3 (JList xs) = Inr (take 3 xs)"
| "py_first3 (JStr s) = Inr (map (\<lambda>c. JStr [c]) (take 3 s))"
| "py_first3 (JDict kvs) = Inl (TypeError (''unhashable type: '' @ quote ''slice''))"
| "py_first3 v = Inl (TypeError (quote (type_name v) @ '' object is not subscriptable''))"

definition upsell_description :: "nat \<Rightarrow> json \<Rightarrow> exn + string" where
  "upsell_description i upsell =
     bind_exn (py_get upsell ''product_name'' (JStr (''Upsell '' @ str_nat (i + 1)))) (\<lambda>product_name.
     bind_exn (py_get upsell ''description'' (JStr '''')) (\<lambda>description.
     Inr (py_str product_name @ '' - '' @ py_str description)))"

definition loads_content :: "(string \<Rightarrow> exn + json) \<Rightarrow> string option \<Rightarrow> exn + json" where
  "loads_content loads content =
     (case content of
        Some s \<Rightarrow> loads s
      | None \<Rightarrow> Inl (TypeError
          ''the JSON object must be str, bytes or bytearray, not NoneType''))"

text \<open>The statements of the \<open>try\<close> block up to the request: they build the prompt.\<close>

definition build_prompt :: "json \<Rightarrow> json \<Rightarrow> json \<Rightarrow> json \<Rightarrow> exn + (json \<times> string)" where
  "build_prompt params main_page upsells customizations =
     bind_exn (py_get params ''num_emails'' (JInt 10)) (\<lambda>n.
     bind_exn (py_min20 n) (\<lambda>num_emails.
     bind_exn (py_get params ''sequence_type'' (JStr ''sales'')) (\<lambda>sequence_type.
     bind_exn (py_get params ''email_style'' (JStr ''conversational'')) (\<lambda>email_style.
     bind_exn (py_get customizations ''brand_name'' (JStr ''Our Product'')) (\<lambda>brand_name.
     bind_exn (py_get main_page ''headline'' (JStr ''Our Amazing Product'')) (\<lambda>product_headline.
     bind_exn (py_get main_page ''benefits'' (JList [])) (\<lambda>b.
     let product_benefits = (case b of JDict kvs \<Rightarrow> JList (map snd kvs) | _ \<Rightarrow> b) in
     bind_exn (case product_benefits of JList xs \<Rightarrow> py_join '', '' (take 5 xs) | _ \<Rightarrow> Inr '''')
       (\<lambda>benefits.
     let prompt = email_prompt (py_str brand_name) (py_str product_headline) benefits
                    (py_str sequence_type) (py_str email_style) (py_str num_emails) in
     if truthy upsells then
       bind_exn (py_first3 upsells) (\<lambda>first3.
       bind_exn (sequence_exn (map (\<lambda>(i, upsell). upsell_description i upsell)
                   (enumerate 0 first3))) (\<lambda>upsell_descriptions.
       Inr (brand_name,
            if upsell_descriptions \<noteq> []
            then prompt @ upsell_prompt (join [CHR 0x0A] upsell_descriptions) else prompt)))
     else Inr (brand_name, prompt)))))))))"

text \<open>The request and what follows it in the \<open>try\<close> block.\<close>

definition request_sequence ::
    "(string \<Rightarrow> exn + string option) \<Rightarrow> (string \<Rightarrow> exn + json) \<Rightarrow> json \<Rightarrow> string \<Rightarrow> exn + json" where
  "request_sequence chat loads brand_name prompt =
     bind_exn (chat prompt) (\<lambda>content.
     bind_exn (loads_content loads content) (\<lambda>email_sequence.
     bind_exn (py_get email_sequence ''emails'' (JList [])) (\<lambda>emails.
     bind_exn (py_len emails) (\<lambda>n.
     Inr (dict_set ''brand_name'' brand_name
            (dict_set ''num_emails'' (JInt (int n)) email_sequence))))))"

definition fallback_sequence :: "exn \<Rightarrow> json \<Rightarrow> json" where
  "fallback_sequence e brand_name = JDict
     [(''error'', JStr (exn_str e)),
      (''sequence_name'', JStr ''Basic Sales Sequence''),
      (''sequence_type'', JStr ''sales''),
      (''purpose'', JStr ''To nurture leads and drive sales''),
      (''num_emails'', JInt 3),
      (''brand_name'', brand_name),
      (''timing'', JDict
        [(''1'', JStr ''Day 0 (Immediately)''),
         (''2'', JStr ''Day 2''),
         (''3'', JStr ''Day 4'')]),
      (''emails'', JList
        [JDict
          [(''subject'', JStr ''Welcome to [Brand Name]''),
           (''body'', JStr ''Welcome email content goes here...''),
           (''purpose'', JStr ''Introduction''),
           (''call_to_action'', JStr ''Visit our website'')],
         JDict
          [(''subject'', JStr ''Benefits of [Product Name]''),
           (''body'', JStr ''Benefits email content goes here...''),
           (''purpose'', JStr ''Highlight benefits''),
           (''call_to_action'', JStr ''Learn more'')],
         JDict
          [(''subject'', JStr ''Special Offer Inside''),
           (''body'', JStr ''Promotional email content goes here...''),
           (''purpose'', JStr ''Drive sales''),
           (''call_to_action'', JStr ''Buy now'')]])]"

text \<open>
  \<open>generate_email_sequence(funnel_data, params)\<close>. The handler evaluates
  \<open>customizations.get('brand_name', 'Our Product')\<close>. The name \<open>customizations\<close> is bound by
  the third statement of the \<open>try\<close> block: after a fault in the first three statements the
  handler raises \<open>UnboundLocalError\<close>; after a later fault it calls \<open>get\<close> on the bound value.
\<close>

definition unbound_customizations :: exn where
  "unbound_customizations = UnboundLocalError
     (''cannot access local variable '' @ quote ''customizations''
        @ '' where it is not associated with a value'')"

definition generate_email_sequence ::
    "(string \<Rightarrow> exn + string option) \<Rightarrow> (string \<Rightarrow> exn + json) \<Rightarrow> json \<Rightarrow> json \<Rightarrow> exn + json" where
  "generate_email_sequence chat loads funnel_data params0 =
    (let params = (if params0 = JNull then JDict [] else params0) in
     case bind_exn (py_get funnel_data ''main_page'' (JDict [])) (\<lambda>main_page.
          bind_exn (py_get funnel_data ''upsells'' (JList [])) (\<lambda>upsells.
          bind_exn (py_get funnel_data ''customizations'' (JDict [])) (\<lambda>customizations.
          Inr (main_page, upsells, customizations)))) of
       Inl e \<Rightarrow> Inl unbound_customizations
     | Inr (main_page, upsells, customizations) \<Rightarrow>
         (case bind_exn (build_prompt params main_page upsells customizations) (\<lambda>(brand_name, prompt).
               request_sequence chat loads brand_name prompt) of
            Inr email_sequence \<Rightarrow> Inr email_sequence
          | Inl e \<Rightarrow>
              bind_exn (py_get customizations ''brand_name'' (JStr ''Our Product'')) (\<lambda>brand_name.
              Inr (fallback_sequence e brand_name))))"


text \<open>
  A fault of the request as the caller of the service sees it: the request raises, or its
  content is not JSON text (or is \<open>None\<close>), or the JSON value is not an object, so that
  \<open>email_sequence.get\<close> raises.
\<close>

definition request_fault :: "(string \<Rightarrow> exn + string option) \<Rightarrow> (string \<Rightarrow> exn + json) \<Rightarrow> string \<Rightarrow> exn \<Rightarrow> bool" where
  "request_fault chat loads prompt e =
     (case chat prompt of
        Inl e' \<Rightarrow> e = e'
      | Inr content \<Rightarrow>
          (case loads_content loads content of
             Inl e' \<Rightarrow> e = e'
           | Inr v \<Rightarrow> \<not> is_dict v \<and> e = no_attribute v ''get''))"

section \<open>Exporter (funnel_generator.py)\<close>

text \<open>
  \<open>json.dumps\<close> with its default settings: \<open>", "\<close> and \<open>": "\<close> as separators, every
  character outside the printable ASCII range escaped.
\<close>

definition dumps_char :: "char \<Rightarrow> string" where
  "dumps_char c =
     (if c = CHR 0x22 then [CHR 0x5C, CHR 0x22]
      else if c = CHR 0x5C then [CHR 0x5C, CHR 0x5C]
      else if c = CHR 0x0A then [CHR 0x5C, CHR ''n'']
      else if c = CHR 0x0D then [CHR 0x5C, CHR ''r'']
      else if c = CHR 0x09 then [CHR 0x5C, CHR ''t'']
      else if c = CHR 0x08 then [CHR 0x5C, CHR ''b'']
      else if c = CHR 0x0C then [CHR 0x5C, CHR ''f'']
      else if (of_char c :: nat) < 32 \<or> 126 < (of_char c :: nat)
        then [CHR 0x5C, CHR ''u'', CHR ''0'', CHR ''0'',
              digit_char (of_char c div 16), digit_char (of_char c mod 16)]
      else [c])"

definition dumps_str :: "string \<Rightarrow> string" where
  "dumps_str s = [CHR 0x22] @ concat (map dumps_char s) @ [CHR 0x22]"

fun json_dumps :: "json \<Rightarrow> string" where
  "json_dumps JNull = ''null''"
| "json_dumps (JBool b) = (if b then ''true'' else ''false'')"
| "json_dumps (JInt i) = str_int i"
| "json_dumps (JStr s) = dumps_str s"
| "json_dumps (JList xs) = ''['' @ join '', '' (map json_dumps xs) @ '']''"
| "json_dumps (JDict kvs) =
     ''{'' @ join '', '' (map (\<lambda>(k, v). dumps_str k @ '': '' @ json_dumps v) kvs) @ ''}''"

subsection \<open>The texts of the artifacts\<close>

definition fallback_html :: \<open>string \<Rightarrow> string \<Rightarrow> string \<Rightarrow> string \<Rightarrow> string\<close> where
  \<open>fallback_html page_title heading description cta_text =
     ''\<newline>''
     @ ''        <!DOCTYPE html>\<newline>''
     @ ''        <html>\<newline>''
     @ ''        <head>\<newline>''
     @ ''            <meta charset="UTF-8">\<newline>''
     @ ''            <meta name="viewport" content="width=device-width, initial-scale=1.0">\<newline>''
     @ ''            <title>'' @ page_title @ ''</title>\<newline>''
     @ ''            <link rel="stylesheet" href="https://cdn.replit.com/agent/bootstrap-agent-dark-theme.min.css">\<newline>''
     @ ''        </head>\<newline>''
     @ ''        <body>\<newline>''
     @ ''            <div class="container py-5">\<newline>''
     @ ''                <h1>'' @ heading @ ''</h1>\<newline>''
     @ ''                <p>'' @ description @ ''</p>\<newline>''
     @ ''                <button class="btn btn-primary">'' @ cta_text @ ''</button>\<newline>''
     @ ''            </div>\<newline>''
     @ ''        </body>\<newline>''
     @ ''        </html>\<newline>''
     @ ''        ''\<close>

definition generate_css :: \<open>string\<close> where
  \<open>generate_css =
     ''\<newline>''
     @ ''    /* Custom styles for funnel pages */\<newline>''
     @ ''    body {\<newline>''
     @ ''        font-family: 'Arial', sans-serif;\<newline>''
     @ ''        line-height: 1.6;\<newline>''
     @ ''        color: #333;\<newline>''
     @ ''        background-color: #f8f9fa;\<newline>''
     @ ''    }\<newline>''
     @ ''    \<newline>''
     @ ''    .hero-section {\<newline>''
     @ ''        background-color: #f5f5f5;\<newline>''
     @ ''        padding: 3rem 0;\<newline>''
     @ ''        margin-bottom: 2rem;\<newline>''
     @ ''    }\<newline>''
     @ ''    \<newline>''
     @ ''    .headline {\<newline>''
     @ ''        font-size: 2.5rem;\<newline>''
     @ ''        font-weight: 700;\<newline>''
     @ ''        margin-bottom: 1rem;\<newline>''
     @ ''    }\<newline>''
     @ ''    \<newline>''
     @ ''    .subheadline {\<newline>''
     @ ''        font-size: 1.5rem;\<newline>''
     @ ''        font-weight: 400;\<newline>''
     @ ''        margin-bottom: 2rem;\<newline>''
     @ ''    }\<newline>''
     @ ''    \<newline>''
     @ ''    .benefits-box {\<newline>''
     @ ''        background-color: #f8f8f8;\<newline>''
     @ ''        border-left: 5px solid #4CAF50;\<newline>''
     @ ''        padding: 1.5rem;\<newline>''
     @ ''        margin-bottom: 2rem;\<newline>''
     @ ''    }\<newline>''
     @ ''    \<newline>''
     @ ''    .testimonial {\<newline>''
     @ ''        background-color: #fff;\<newline>''
     @ ''        border-left: 3px solid #007bff;\<newline>''
     @ ''        padding: 1.5rem;\<newline>''
     @ ''        margin-bottom: 1.5rem;\<newline>''
     @ ''        box-shadow: 0 2px 5px rgba(0,0,0,0.1);\<newline>''
     @ ''    }\<newline>''
     @ ''    \<newline>''
     @ ''    .cta-button {\<newline>''
     @ ''        display: inline-block;\<newline>''
     @ ''        padding: 1rem 2rem;\<newline>''
     @ ''        font-size: 1.25rem;\<newline>''
     @ ''        font-weight: 600;\<newline>''
     @ ''        text-align: center;\<newline>''
     @ ''        text-decoration: none;\<newline>''
     @ ''        background-color: #FF5722;\<newline>''
     @ ''        color: white;\<newline>''
     @ ''        border-radius: 5px;\<newline>''
     @ ''        margin: 1.5rem 0;\<newline>''
     @ ''        transition: background-color 0.3s ease;\<newline>''
     @ ''    }\<newline>''
     @ ''    \<newline>''
     @ ''    .cta-button:hover {\<newline>''
     @ ''        background-color: #E64A19;\<newline>''
     @ ''    }\<newline>''
     @ ''    \<newline>''
     @ ''    .price-tag {\<newline>''
     @ ''        font-size: 2.5rem;\<newline>''
     @ ''        font-weight: 700;\<newline>''
     @ ''        color: #4CAF50;\<newline>''
     @ ''        margin: 1rem 0;\<newline>''
     @ ''    }\<newline>''
     @ ''    \<newline>''
     @ ''    .guarantee-box {\<newline>''
     @ ''        background-color: #FFFDE7;\<newline>''
     @ ''        border: 1px solid #FFC107;\<newline>''
     @ ''        padding: 1.5rem;\<newline>''
     @ ''        margin: 2rem 0;\<newline>''
     @ ''        text-align: center;\<newline>''
     @ ''    }\<newline>''
     @ ''    \<newline>''
     @ ''    .faq-item {\<newline>''
     @ ''        margin-bottom: 1.5rem;\<newline>''
     @ ''    }\<newline>''
     @ ''    \<newline>''
     @ ''    .faq-question {\<newline>''
     @ ''        font-weight: 600;\<newline>''
     @ ''        margin-bottom: 0.5rem;\<newline>''
     @ ''    }\<newline>''
     @ ''    \<newline>''
     @ ''    .faq-answer {\<newline>''
     @ ''        color: #555;\<newline>''
     @ ''    }\<newline>''
     @ ''    \<newline>''
     @ ''    .upsell-box {\<newline>''
     @ ''        background-color: #E3F2FD;\<newline>''
     @ ''        border: 1px solid #2196F3;\<newline>''
     @ ''        padding: 2rem;\<newline>''
     @ ''        margin: 2rem 0;\<newline>''
     @ ''        text-align: center;\<newline>''
     @ ''    }\<newline>''
     @ ''    \<newline>''
     @ ''    .downsell-box {\<newline>''
     @ ''        background-color: #E8F5E9;\<newline>''
     @ ''        border: 1px solid #4CAF50;\<newline>''
     @ ''        padding: 2rem;\<newline>''
     @ ''        margin: 2rem 0;\<newline>''
     @ ''        text-align: center;\<newline>''
     @ ''    }\<newline>''
     @ ''    \<newline>''
     @ ''    .thank-you-box {\<newline>''
     @ ''        background-color: #E8F5E9;\<newline>''
     @ ''        text-align: center;\<newline>''
     @ ''        padding: 3rem;\<newline>''
     @ ''        margin: 3rem 0;\<newline>''
     @ ''    }\<newline>''
     @ ''    ''\<close>

definition js_text :: \<open>string \<Rightarrow> string\<close> where
  \<open>js_text funnel_flow_str =
     ''\<newline>''
     @ ''    // Funnel flow data\<newline>''
     @ ''    const funnelFlow = '' @ funnel_flow_str @ '';\<newline>''
     @ ''    \<newline>''
     @ ''    // Function to handle button clicks\<newline>''
     @ ''    function handleButtonClick(action) {\<newline>''
     @ ''        // Find the next page based on the action\<newline>''
     @ ''        let nextPage = '' @ [CHR 0x27] @ [CHR 0x27] @ '';\<newline>''
     @ ''        \<newline>''
     @ ''        switch(action) {\<newline>''
     @ ''            case 'to_thank_you':\<newline>''
     @ ''                nextPage = 'thank_you.html';\<newline>''
     @ ''                break;\<newline>''
     @ ''            case 'exit':\<newline>''
     @ ''                // Handle exit action (e.g., redirect to external page)\<newline>''
     @ ''                return;\<newline>''
     @ ''            default:\<newline>''
     @ ''                // Extract page ID from action string (e.g., 'to_upsell_1' -> 'upsell_1')\<newline>''
     @ ''                const pageId = action.replace('to_', '' @ [CHR 0x27] @ [CHR 0x27] @ '');\<newline>''
     @ ''                nextPage = pageId + '.html';\<newline>''
     @ ''        }\<newline>''
     @ ''        \<newline>''
     @ ''        // Navigate to the next page\<newline>''
     @ ''        window.location.href = nextPage;\<newline>''
     @ ''    }\<newline>''
     @ ''    \<newline>''
     @ ''    // Initialize the page\<newline>''
     @ ''    document.addEventListener('DOMContentLoaded', function() {\<newline>''
     @ ''        // Add event listeners to accept/decline buttons\<newline>''
     @ ''        const acceptButtons = document.querySelectorAll('.accept-button');\<newline>''
     @ ''        const declineButtons = document.querySelectorAll('.decline-button');\<newline>''
     @ ''        \<newline>''
     @ ''        acceptButtons.forEach(button => {\<newline>''
     @ ''            button.addEventListener('click', function() {\<newline>''
     @ ''                const action = this.getAttribute('data-action');\<newline>''
     @ ''                handleButtonClick(action);\<newline>''
     @ ''            });\<newline>''
     @ ''        });\<newline>''
     @ ''        \<newline>''
     @ ''        declineButtons.forEach(button => {\<newline>''
     @ ''            button.addEventListener('click', function() {\<newline>''
     @ ''                const action = this.getAttribute('data-action');\<newline>''
     @ ''                handleButtonClick(action);\<newline>''
     @ ''            });\<newline>''
     @ ''        });\<newline>''
     @ ''    });\<newline>''
     @ ''    ''\<close>

definition documentation_text :: \<open>string \<Rightarrow> string \<Rightarrow> string \<Rightarrow> string \<Rightarrow> string \<Rightarrow> string \<Rightarrow> string \<Rightarrow> string \<Rightarrow> string\<close> where
  \<open>documentation_text name url generated_on brand_name target_audience unique_angle num_upsells num_downsells =
     ''\<newline>''
     @ ''Affiliate Hijacker Funnel - Documentation\<newline>''
     @ ''========================================\<newline>''
     @ ''\<newline>''
     @ ''Project Name: '' @ name @ ''\<newline>''
     @ ''Original URL: '' @ url @ ''\<newline>''
     @ ''Generated on: '' @ generated_on @ ''\<newline>''
     @ ''\<newline>''
     @ ''Product Information:\<newline>''
     @ ''------------------\<newline>''
     @ ''Brand Name: '' @ brand_name @ ''\<newline>''
     @ ''Target Audience: '' @ target_audience @ ''\<newline>''
     @ ''Unique Angle: '' @ unique_angle @ ''\<newline>''
     @ ''\<newline>''
     @ ''Funnel Structure:\<newline>''
     @ ''---------------\<newline>''
     @ ''1. Main Sales Page (index.html)\<newline>''
     @ ''2. Upsells: '' @ num_upsells @ '' pages\<newline>''
     @ ''3. Downsells: '' @ num_downsells @ '' pages\<newline>''
     @ ''4. Thank You Page (thank_you.html)\<newline>''
     @ ''\<newline>''
     @ ''Files Included:\<newline>''
     @ ''-------------\<newline>''
     @ ''- index.html: Main sales page\<newline>''
     @ ''- upsell_*.html: Upsell pages\<newline>''
     @ ''- downsell_*.html: Downsell pages\<newline>''
     @ ''- thank_you.html: Thank you page\<newline>''
     @ ''- style.css: CSS styles for all pages\<newline>''
     @ ''- funnel.js: JavaScript for funnel flow control\<newline>''
     @ ''- emails/: Directory containing email sequence (if generated)\<newline>''
     @ ''- README.txt: This documentation file\<newline>''
     @ ''\<newline>''
     @ ''How to Use:\<newline>''
     @ ''---------\<newline>''
     @ ''1. Upload all files to your web hosting\<newline>''
     @ ''2. Link your payment processor to the buttons\<newline>''
     @ ''3. Set up email sequence in your email marketing platform\<newline>''
     @ ''4. Test the complete funnel flow before driving traffic\<newline>''
     @ ''\<newline>''
     @ ''Customization:\<newline>''
     @ ''------------\<newline>''
     @ ''- Edit HTML files to customize design and content\<newline>''
     @ ''- Modify CSS in style.css to change appearance\<newline>''
     @ ''- Update funnel.js if you need to change the flow\<newline>''
     @ ''\<newline>''
     @ ''Notes:\<newline>''
     @ ''-----\<newline>''
     @ ''This funnel was generated by Affiliate Hijacker based on analysis of the original URL.\<newline>''
     @ ''The design, copy, and flow are optimized for maximum conversions.\<newline>''
     @ ''    ''\<close>

definition thank_you_text :: \<open>string \<Rightarrow> string\<close> where
  \<open>thank_you_text brand_name =
     ''\<newline>''
     @ ''    <!DOCTYPE html>\<newline>''
     @ ''    <html>\<newline>''
     @ ''    <head>\<newline>''
     @ ''        <meta charset="UTF-8">\<newline>''
     @ ''        <meta name="viewport" content="width=device-width, initial-scale=1.0">\<newline>''
     @ ''        <title>Thank You for Your Purchase | '' @ brand_name @ ''</title>\<newline>''
     @ ''        <link rel="stylesheet" href="https://cdn.replit.com/agent/bootstrap-agent-dark-theme.min.css">\<newline>''
     @ ''        <link rel="stylesheet" href="style.css">\<newline>''
     @ ''    </head>\<newline>''
     @ ''    <body>\<newline>''
     @ ''        <div class="container py-5">\<newline>''
     @ ''            <div class="thank-you-box">\<newline>''
     @ ''                <h1>Thank You for Your Purchase!</h1>\<newline>''
     @ ''                <p>Your order has been successfully processed and is on its way to you.</p>\<newline>''
     @ ''                <div class="my-4">\<newline>''
     @ ''                    <h3>What's Next?</h3>\<newline>''
     @ ''                    <p>Check your email for your order confirmation and access instructions.</p>\<newline>''
     @ ''                    <p>If you have any questions, please contact our support team.</p>\<newline>''
     @ ''                </div>\<newline>''
     @ ''                <div class="mt-5">\<newline>''
     @ ''                    <h3>Recommended Next Steps</h3>\<newline>''
     @ ''                    <ul class="list-group my-3">\<newline>''
     @ ''                        <li class="list-group-item">Check your email for your order confirmation</li>\<newline>''
     @ ''                        <li class="list-group-item">Bookmark this page for future reference</li>\<newline>''
     @ ''                        <li class="list-group-item">Follow us on social media for updates and tips</li>\<newline>''
     @ ''                    </ul>\<newline>''
     @ ''                </div>\<newline>''
     @ ''            </div>\<newline>''
     @ ''        </div>\<newline>''
     @ ''        \<newline>''
     @ ''        <script src="funnel.js"></script>\<newline>''
     @ ''    </body>\<newline>''
     @ ''    </html>\<newline>''
     @ ''    ''\<close>

definition email_content :: \<open>string \<Rightarrow> string \<Rightarrow> string\<close> where
  \<open>email_content subject body =
     ''\<newline>''
     @ ''Subject: '' @ subject @ ''\<newline>''
     @ ''\<newline>''
     @ body @ ''\<newline>''
     @ ''                    ''\<close>

definition email_docs_text :: \<open>string \<Rightarrow> string \<Rightarrow> string \<Rightarrow> string \<Rightarrow> string \<Rightarrow> string\<close> where
  \<open>email_docs_text sequence_name num_emails sequence_type timing_lines purpose =
     ''\<newline>''
     @ ''Email Sequence Documentation\<newline>''
     @ ''===========================\<newline>''
     @ ''\<newline>''
     @ ''Sequence Name: '' @ sequence_name @ ''\<newline>''
     @ ''Number of Emails: '' @ num_emails @ ''\<newline>''
     @ ''Sequence Type: '' @ sequence_type @ ''\<newline>''
     @ ''\<newline>''
     @ ''Timing:\<newline>''
     @ ''- Email 1: Immediately after signup\<newline>''
     @ timing_lines @ ''\<newline>''
     @ ''\<newline>''
     @ ''Purpose:\<newline>''
     @ purpose @ ''\<newline>''
     @ ''\<newline>''
     @ ''Instructions:\<newline>''
     @ ''1. Import these emails into your email marketing platform\<newline>''
     @ ''2. Set up the automation sequence with the timing above\<newline>''
     @ ''3. Customize sender name and contact information before sending\<newline>''
     @ ''                ''\<close>

subsection \<open>Rendering\<close>

text \<open>
  \<open>create_html_page(page_data, page_type)\<close>. Loading and rendering the template is the
  parameter \<open>render\<close>; when it raises, the handler builds the inline page from four
  \<open>page_data.get\<close> calls, which are not guarded.
\<close>

definition create_html_page :: "(string \<Rightarrow> json \<Rightarrow> exn + string) \<Rightarrow> json \<Rightarrow> string \<Rightarrow> exn + string" where
  "create_html_page render page_data page_type =
     (case render (page_type @ ''.html'') page_data of
        Inr html_content \<Rightarrow> Inr html_content
      | Inl e \<Rightarrow>
          bind_exn (py_get page_data ''headline'' (JStr ''Funnel Page'')) (\<lambda>page_title.
          bind_exn (py_get page_data ''headline'' (JStr ''Funnel Page'')) (\<lambda>heading.
          bind_exn (py_get page_data ''description'' (JStr '''')) (\<lambda>description.
          bind_exn (py_get page_data ''cta_text'' (JStr ''Continue'')) (\<lambda>cta_text.
          Inr (fallback_html (py_str page_title) (py_str heading) (py_str description)
                 (py_str cta_text)))))))"

definition generate_js :: "json \<Rightarrow> exn + string" where
  "generate_js funnel_data =
     bind_exn (py_get funnel_data ''funnel_flow'' (JList [])) (\<lambda>funnel_flow.
     Inr (js_text (json_dumps funnel_flow)))"

definition create_thank_you_page :: "json \<Rightarrow> exn + string" where
  "create_thank_you_page funnel_data =
     bind_exn (py_get funnel_data ''customizations'' (JDict [])) (\<lambda>customizations.
     bind_exn (py_get customizations ''brand_name'' (JStr ''Our Product'')) (\<lambda>brand_name.
     Inr (thank_you_text (py_str brand_name))))"

text \<open>
  The rows of the \<open>Project\<close> table that the exporter reads. The two blobs are nullable text
  columns holding JSON.
\<close>

record project =
  project_id :: int
  project_name :: string
  project_url :: string
  project_funnel_data :: "string option"
  project_email_sequence :: "string option"

text \<open>
  What the exporter asks of its surroundings: \<open>json.loads\<close>, the template engine, the
  creation of the export directory, the opening of the archive for writing, the export
  directory and the formatted clock of the documentation.
\<close>

record export_env =
  json_loads :: "string \<Rightarrow> exn + json"
  render_template :: "string \<Rightarrow> json \<Rightarrow> exn + string"
  makedirs :: "exn + unit"
  open_zip :: "string \<Rightarrow> exn + unit"
  exports_dir :: string
  generated_on :: string

definition generate_documentation :: "export_env \<Rightarrow> project \<Rightarrow> json \<Rightarrow> exn + string" where
  "generate_documentation env project funnel_data =
     bind_exn (py_get funnel_data ''customizations'' (JDict [])) (\<lambda>customizations.
     bind_exn (py_get customizations ''brand_name'' (JStr ''Our Product'')) (\<lambda>brand_name.
     bind_exn (py_get customizations ''target_audience'' (JStr ''General audience'')) (\<lambda>target_audience.
     bind_exn (py_get customizations ''unique_angle'' (JStr '''')) (\<lambda>unique_angle.
     bind_exn (py_get funnel_data ''upsells'' (JList [])) (\<lambda>upsells.
     bind_exn (py_len upsells) (\<lambda>num_upsells.
     bind_exn (py_get funnel_data ''downsells'' (JList [])) (\<lambda>downsells.
     bind_exn (py_len downsells) (\<lambda>num_downsells.
     Inr (documentation_text (project_name project) (project_url project) (generated_on env)
            (py_str brand_name) (py_str target_audience) (py_str unique_angle)
            (str_nat num_upsells) (str_nat num_downsells))))))))))"

text \<open>A blob is parsed when it is a non-empty text; otherwise the value is \<open>None\<close>.\<close>

definition load_blob :: "export_env \<Rightarrow> string option \<Rightarrow> exn + json" where
  "load_blob env blob =
     (case blob of
        None \<Rightarrow> Inr JNull
      | Some s \<Rightarrow> (if s = [] then Inr JNull else json_loads env s))"

definition page_file ::
    "export_env \<Rightarrow> string \<Rightarrow> nat \<Rightarrow> json \<Rightarrow> exn + (string \<times> string)" where
  "page_file env page_type i page =
     bind_exn (create_html_page (render_template env) page page_type) (\<lambda>html.
     Inr (page_type @ ''_'' @ str_nat (i + 1) @ ''.html'', html))"

definition email_file :: "nat \<Rightarrow> json \<Rightarrow> exn + (string \<times> string)" where
  "email_file i email =
     bind_exn (py_get email ''subject'' (JStr (''Email '' @ str_nat (i + 1)))) (\<lambda>subject.
     bind_exn (py_get email ''body'' (JStr ''Email content'')) (\<lambda>body.
     Inr (''emails/email_'' @ str_nat (i + 1) @ ''.txt'',
          email_content (py_str subject) (py_str body))))"

definition timing_line :: "json \<Rightarrow> nat \<Rightarrow> exn + string" where
  "timing_line email_sequence i =
     bind_exn (py_get email_sequence ''timing'' (JDict [])) (\<lambda>timing.
     bind_exn (py_get timing (str_nat (i + 2)) (JStr (''Day '' @ str_nat (i + 1)))) (\<lambda>t.
     Inr (''- Email '' @ str_nat (i + 2) @ '': '' @ py_str t)))"

definition email_docs :: "json \<Rightarrow> exn + string" where
  "email_docs email_sequence =
     bind_exn (py_get email_sequence ''sequence_name'' (JStr ''Email Sequence'')) (\<lambda>sequence_name.
     bind_exn (py_get email_sequence ''emails'' (JList [])) (\<lambda>emails.
     bind_exn (py_len emails) (\<lambda>num_emails.
     bind_exn (py_get email_sequence ''sequence_type'' (JStr ''sales'')) (\<lambda>sequence_type.
     bind_exn (py_get email_sequence ''emails'' (JList [])) (\<lambda>emails.
     bind_exn (py_len emails) (\<lambda>n.
     bind_exn (sequence_exn (map (timing_line email_sequence) [0..<nat (int n - 1)]))
       (\<lambda>timing_lines.
     bind_exn (py_get email_sequence ''purpose'' (JStr ''Nurture leads and promote products''))
       (\<lambda>purpose.
     Inr (email_docs_text (py_str sequence_name) (str_nat num_emails) (py_str sequence_type)
            (join [CHR 0x0A] timing_lines) (py_str purpose))))))))))"

definition email_files :: "json \<Rightarrow> exn + (string \<times> string) list" where
  "email_files email_sequence =
     bind_exn (py_get email_sequence ''emails'' (JList [])) (\<lambda>emails.
     bind_exn (py_iter emails) (\<lambda>emails.
     bind_exn (sequence_exn (map (\<lambda>(i, email). email_file i email) (enumerate 0 emails)))
       (\<lambda>files.
     bind_exn (email_docs email_sequence) (\<lambda>docs.
     Inr (files @ [(''emails/README.txt'', docs)])))))"

text \<open>
  \<open>create_zip_export(project)\<close>. The archive is the list of the entries written, in the
  order of the \<open>writestr\<close> calls; the function returns the path of the archive. The handler
  of the function logs and raises the exception again, so every fault of the body reaches
  the caller. The timestamp of the first statement is not used.
\<close>

definition create_zip_export ::
    "export_env \<Rightarrow> project \<Rightarrow> exn + (string \<times> (string \<times> string) list)" where
  "create_zip_export env project =
     bind_exn (makedirs env) (\<lambda>u.
     let zip_filename = exports_dir env @ ''/'' @ str_int (project_id project) @ ''.zip'' in
     bind_exn (load_blob env (project_funnel_data project)) (\<lambda>funnel_data.
     bind_exn (load_blob env (project_email_sequence project)) (\<lambda>email_sequence.
     if \<not> truthy funnel_data then Inl (ValueError ''No funnel data available for export'')
     else
     bind_exn (open_zip env zip_filename) (\<lambda>u.
     bind_exn (py_get funnel_data ''main_page'' (JDict [])) (\<lambda>main_page.
     bind_exn (create_html_page (render_template env) main_page ''main'') (\<lambda>main_html.
     bind_exn (generate_js funnel_data) (\<lambda>js.
     bind_exn (py_get funnel_data ''upsells'' (JList [])) (\<lambda>upsells.
     bind_exn (py_iter upsells) (\<lambda>upsells.
     bind_exn (sequence_exn (map (\<lambda>(i, upsell). page_file env ''upsell'' i upsell)
                 (enumerate 0 upsells))) (\<lambda>upsell_files.
     bind_exn (py_get funnel_data ''downsells'' (JList [])) (\<lambda>downsells.
     bind_exn (py_iter downsells) (\<lambda>downsells.
     bind_exn (sequence_exn (map (\<lambda>(i, downsell). page_file env ''downsell'' i downsell)
                 (enumerate 0 downsells))) (\<lambda>downsell_files.
     bind_exn (create_thank_you_page funnel_data) (\<lambda>thank_you_html.
     bind_exn (if truthy email_sequence then email_files email_sequence else Inr [])
       (\<lambda>email_entries.
     bind_exn (generate_documentation env project funnel_data) (\<lambda>documentation.
     Inr (zip_filename,
          [(''index.html'', main_html), (''style.css'', generate_css), (''funnel.js'', js)]
            @ upsell_files @ downsell_files @ [(''thank_you.html'', thank_you_html)]
            @ email_entries @ [(''README.txt'', documentation)])))))))))))))))))"

definition archive_names :: "exn + (string \<times> (string \<times> string) list) \<Rightarrow> string list" where
  "archive_names result = (case result of Inr (path, entries) \<Rightarrow> map fst entries | Inl e \<Rightarrow> [])"


subsection \<open>The writes of the archive\<close>

text \<open>
  \<open>zipf.writestr(name, text)\<close> can raise: a text that cannot be encoded, a full disk. The
  exporter with this call as the parameter \<open>writestr\<close>. Every entry is written right after
  it is computed, as in the source, so the exception raised is the first one in the order
  of the statements. \<open>create_zip_export\<close> above is this function on an archive that takes
  every write.
\<close>

definition write_entry ::
    "(string \<Rightarrow> string \<Rightarrow> exn + unit) \<Rightarrow> string \<Rightarrow> string \<Rightarrow> exn + (string \<times> string)" where
  "write_entry writestr name content =
     bind_exn (writestr name content) (\<lambda>u. Inr (name, content))"

definition email_files_writing ::
    "(string \<Rightarrow> string \<Rightarrow> exn + unit) \<Rightarrow> json \<Rightarrow> exn + (string \<times> string) list" where
  "email_files_writing writestr email_sequence =
     bind_exn (py_get email_sequence ''emails'' (JList [])) (\<lambda>emails.
     bind_exn (py_iter emails) (\<lambda>emails.
     bind_exn (sequence_exn (map (\<lambda>(i, email).
                   bind_exn (email_file i email) (\<lambda>(name, content).
                   write_entry writestr name content))
                 (enumerate 0 emails))) (\<lambda>files.
     bind_exn (email_docs email_sequence) (\<lambda>docs.
     bind_exn (write_entry writestr ''emails/README.txt'' docs) (\<lambda>readme.
     Inr (files @ [readme]))))))"

definition create_zip_export_writing ::
    "(string \<Rightarrow> string \<Rightarrow> exn + unit) \<Rightarrow> export_env \<Rightarrow> project
       \<Rightarrow> exn + (string \<times> (string \<times> string) list)" where
  "create_zip_export_writing writestr env project =
     bind_exn (makedirs env) (\<lambda>u.
     let zip_filename = exports_dir env @ ''/'' @ str_int (project_id project) @ ''.zip'' in
     bind_exn (load_blob env (project_funnel_data project)) (\<lambda>funnel_data.
     bind_exn (load_blob env (project_email_sequence project)) (\<lambda>email_sequence.
     if \<not> truthy funnel_data then Inl (ValueError ''No funnel data available for export'')
     else
     bind_exn (open_zip env zip_filename) (\<lambda>u.
     bind_exn (py_get funnel_data ''main_page'' (JDict [])) (\<lambda>main_page.
     bind_exn (create_html_page (render_template env) main_page ''main'') (\<lambda>main_html.
     bind_exn (write_entry writestr ''index.html'' main_html) (\<lambda>index.
     bind_exn (write_entry writestr ''style.css'' generate_css) (\<lambda>style.
     bind_exn (generate_js funnel_data) (\<lambda>js.
     bind_exn (write_entry writestr ''funnel.js'' js) (\<lambda>script.
     bind_exn (py_get funnel_data ''upsells'' (JList [])) (\<lambda>upsells.
     bind_exn (py_iter upsells) (\<lambda>upsells.
     bind_exn (sequence_exn (map (\<lambda>(i, upsell).
                   bind_exn (page_file env ''upsell'' i upsell) (\<lambda>(name, upsell_html).
                   write_entry writestr name upsell_html))
                 (enumerate 0 upsells))) (\<lambda>upsell_files.
     bind_exn (py_get funnel_data ''downsells'' (JList [])) (\<lambda>downsells.
     bind_exn (py_iter downsells) (\<lambda>downsells.
     bind_exn (sequence_exn (map (\<lambda>(i, downsell).
                   bind_exn (page_file env ''downsell'' i downsell) (\<lambda>(name, downsell_html).
                   write_entry writestr name downsell_html))
                 (enumerate 0 downsells))) (\<lambda>downsell_files.
     bind_exn (create_thank_you_page funnel_data) (\<lambda>thank_you_html.
     bind_exn (write_entry writestr ''thank_you.html'' thank_you_html) (\<lambda>thank_you.
     bind_exn (if truthy email_sequence then email_files_writing writestr email_sequence
               else Inr []) (\<lambda>email_entries.
     bind_exn (generate_documentation env project funnel_data) (\<lambda>documentation.
     bind_exn (write_entry writestr ''README.txt'' documentation) (\<lambda>readme.
     Inr (zip_filename,
          [index, style, script] @ upsell_files @ downsell_files @ [thank_you]
            @ email_entries @ [readme]))))))))))))))))))))))"

subsection \<open>Well-shaped projects\<close>

text \<open>
  The shape that \<open>generate_funnel\<close> and the fallback of \<open>generate_email_sequence\<close> write:
  the funnel data is a non-empty object whose \<open>main_page\<close> and \<open>customizations\<close> (when
  present) are objects and whose \<open>upsells\<close> and \<open>downsells\<close> (when present) are lists of
  objects; the email sequence is absent or empty, or an object whose \<open>emails\<close> is a list of
  objects and whose \<open>timing\<close> is an object.
\<close>

definition entry_ok :: "(json \<Rightarrow> bool) \<Rightarrow> (string \<times> json) list \<Rightarrow> string \<Rightarrow> bool" where
  "entry_ok P kvs k = (case map_of kvs k of None \<Rightarrow> True | Some v \<Rightarrow> P v)"

fun is_object_list :: "json \<Rightarrow> bool" where
  "is_object_list (JList xs) = list_all is_dict xs"
| "is_object_list v = False"

fun funnel_ok :: "json \<Rightarrow> bool" where
  "funnel_ok (JDict kvs) =
     (kvs \<noteq> [] \<and> entry_ok is_dict kvs ''main_page'' \<and> entry_ok is_object_list kvs ''upsells''
      \<and> entry_ok is_object_list kvs ''downsells'' \<and> entry_ok is_dict kvs ''customizations'')"
| "funnel_ok v = False"

fun emails_ok :: "json \<Rightarrow> bool" where
  "emails_ok (JDict kvs) =
     (entry_ok is_object_list kvs ''emails'' \<and> entry_ok is_dict kvs ''timing'')"
| "emails_ok v = (\<not> truthy v)"

definition export_ready :: "export_env \<Rightarrow> project \<Rightarrow> bool" where
  "export_ready env project =
     (case makedirs env of
        Inl e \<Rightarrow> False
      | Inr u \<Rightarrow>
     (case load_blob env (project_funnel_data project) of
        Inl e \<Rightarrow> False
      | Inr funnel_data \<Rightarrow>
     (case load_blob env (project_email_sequence project) of
        Inl e \<Rightarrow> False
      | Inr email_sequence \<Rightarrow>
     (case open_zip env
             (exports_dir env @ ''/'' @ str_int (project_id project) @ ''.zip'') of
        Inl e \<Rightarrow> False
      | Inr u \<Rightarrow> funnel_ok funnel_data \<and> emails_ok email_sequence))))"

text \<open>The values a key of an object and the list under a key stand for, with the defaults of \<open>get\<close>.\<close>

definition items_of :: "json \<Rightarrow> string \<Rightarrow> json list" where
  "items_of d k = (case py_get d k (JList []) of Inr (JList xs) \<Rightarrow> xs | _ \<Rightarrow> [])"

subsection \<open>A project for the examples\<close>

text \<open>
  Two upsells, two downsells and a sequence of three emails; a template engine that has
  no templates, so that every page is the inline page.
\<close>

definition demo_funnel_text :: string where
  \<open>demo_funnel_text = ''{"main_page": {}, "upsells": [{}, {}], "downsells": [{}, {}]}''\<close>

definition demo_funnel :: json where
  "demo_funnel = JDict
     [(''main_page'', JDict []),
      (''upsells'', JList [JDict [], JDict []]),
      (''downsells'', JList [JDict [], JDict []])]"

definition demo_emails_text :: string where
  \<open>demo_emails_text = ''{"emails": [{"subject": "Hi", "body": "Yo"}, {}, {}]}''\<close>

definition demo_emails :: json where
  "demo_emails = JDict
     [(''emails'', JList [JDict [(''subject'', JStr ''Hi''), (''body'', JStr ''Yo'')],
                          JDict [], JDict []])]"

definition bad_emails_text :: string where
  \<open>bad_emails_text = ''{"emails": ["Hi"], "num_emails": 1, "brand_name": "Our Product"}''\<close>

definition bad_emails :: json where
  "bad_emails = JDict
     [(''emails'', JList [JStr ''Hi'']), (''num_emails'', JInt 1),
      (''brand_name'', JStr ''Our Product'')]"

definition demo_env :: export_env where
  "demo_env = \<lparr>
     json_loads = (\<lambda>s.
       if s = demo_funnel_text then Inr demo_funnel
       else if s = demo_emails_text then Inr demo_emails
       else if s = bad_emails_text then Inr bad_emails
       else Inl (ValueError ''Expecting value: line 1 column 1 (char 0)'')),
     render_template = (\<lambda>name page. Inl (ExternalError name)),
     makedirs = Inr (),
     open_zip = (\<lambda>path. Inr ()),
     exports_dir = ''static/exports'',
     generated_on = ''2024-05-13 12:00'' \<rparr>"

definition demo_project :: project where
  "demo_project = \<lparr>
     project_id = 1,
     project_name = ''Demo'',
     project_url = ''https://example.com/offer'',
     project_funnel_data = Some demo_funnel_text,
     project_email_sequence = Some demo_emails_text \<rparr>"


text \<open>
  Two archives for the examples: one that takes every write, and one on a disk that is full
  when the script is written.
\<close>

definition writestr_ok :: "string \<Rightarrow> string \<Rightarrow> exn + unit" where
  "writestr_ok name content = Inr ()"

definition writestr_full_disk :: "string \<Rightarrow> string \<Rightarrow> exn + unit" where
  "writestr_full_disk name content =
     (if name = ''funnel.js'' then Inl (OSError ''[Errno 28] No space left on device'')
      else Inr ())"

section \<open>Basic facts\<close>

lemma py_get_dict: "is_dict d \<Longrightarrow> py_get d k v = Inr (projr (py_get d k v))"
  by (cases d) simp_all

lemma py_get_Inr_is_dict: "py_get d k v = Inr x \<Longrightarrow> is_dict d"
  by (cases d) simp_all

lemma sequence_exn_map_Inr:
  "(\<And>x. x \<in> set xs \<Longrightarrow> f x = Inr (g x)) \<Longrightarrow> sequence_exn (map f xs) = Inr (map g xs)"
  by (induction xs) simp_all

lemma in_set_enumerate_snd: "x \<in> set (enumerate n xs) \<Longrightarrow> snd x \<in> set xs"
  by (cases x) (auto simp: enumerate_eq_zip dest: set_zip_rightD)

section \<open>Properties of the offer generator\<close>

lemma dict_set_second:
  "k1 \<noteq> k \<Longrightarrow> JDict ((k1, a) # (k, v) # rest) = dict_set k v (JDict ((k1, a) # (k, b) # rest))"
  by (simp add: dict_set_def)

text \<open>
  Outside positions 1 and 2 the sample offer is the third variant of its kind, with the
  requested position written into it.
\<close>

lemma sample_offer_else:
  assumes "p \<noteq> 1" "p \<noteq> 2"
  shows "sample_offer b k p = dict_set ''position'' (JInt p) (sample_offer b k 3)"
proof -
  have n: "((3::int) = 1) = False" "((3::int) = 2) = False" "(p = 1) = False" "(p = 2) = False"
    using assms by simp_all
  have ne: "''offer_type'' \<noteq> ''position''" by simp
  show ?thesis
  proof (cases "k = ''upsell''")
    case True
    show ?thesis unfolding sample_offer_def n if_False if_P[OF True]
      by (rule dict_set_second[OF ne])
  next
    case False
    show ?thesis unfolding sample_offer_def n if_False if_not_P[OF False]
      by (rule dict_set_second[OF ne])
  qed
qed

lemma default_offer_position:
  "default_offer e k p = dict_set ''position'' (JInt p) (default_offer e k q)"
  by (simp add: default_offer_def dict_set_def)

lemma generate_upsell_cases:
  "generate_upsell info k p =
     (case info of
        JDict kvs \<Rightarrow> sample_offer
          (py_str (case map_of kvs ''brand_name'' of None \<Rightarrow> JStr ''Our Product'' | Some v \<Rightarrow> v)) k p
      | _ \<Rightarrow> default_offer (no_attribute info ''get'') k p)"
  by (cases info) (simp_all add: generate_upsell_def)

lemma sample_offer_is_dict: "is_dict (sample_offer b k p)"
  unfolding sample_offer_def
  by (simp only: if_distrib[where f=is_dict] is_dict.simps if_cancel)

lemma default_offer_is_dict: "is_dict (default_offer e k p)"
  unfolding default_offer_def by (simp only: is_dict.simps)

lemma generate_upsell_is_dict: "is_dict (generate_upsell info k p)"
  unfolding generate_upsell_cases
  by (cases info) (simp_all only: json.case sample_offer_is_dict default_offer_is_dict)

text \<open>
  Claim C4. For either kind and every position above 3, \<open>generate_upsell\<close> returns the
  offer it returns for \<open>min(position, 3) = 3\<close>, with only the \<open>position\<close> field carrying
  the requested position: positions beyond 3 reuse the third template of the kind.
\<close>

theorem generate_upsell_beyond_three:
  assumes "kind \<in> {''upsell'', ''downsell''}" and "3 < position"
  shows "generate_upsell info kind position =
           dict_set ''position'' (JInt position) (generate_upsell info kind (min position 3))"
proof -
  have m: "min position 3 = 3" using assms(2) by simp
  have p: "position \<noteq> 1" "position \<noteq> 2" using assms(2) by simp_all
  show ?thesis
    unfolding m generate_upsell_cases
    by (cases info)
       (simp_all only: json.case sample_offer_else[OF p] default_offer_position[of _ _ position 3])
qed

theorem generate_upsell_beyond_three_witness:
  "''downsell'' \<in> {''upsell'', ''downsell''} \<and> (3::int) < 7
   \<and> generate_upsell (JDict [(''brand_name'', JStr ''Acme'')]) ''downsell'' 7 =
       dict_set ''position'' (JInt 7)
         (generate_upsell (JDict [(''brand_name'', JStr ''Acme'')]) ''downsell'' (min 7 3))"
  using generate_upsell_beyond_three
          [of "''downsell''" 7 "JDict [(''brand_name'', JStr ''Acme'')]"]
  by simp




section \<open>Properties of the flow graph\<close>

lemma downsell_node_dict:
  assumes "is_dict d"
  shows "downsell_node us i d = Inr (JDict
           [(''id'', JStr (''downsell_'' @ str_nat (i + 1))),
            (''type'', JStr ''downsell''),
            (''name'', projr (py_get d ''product_name'' (JStr (''Downsell '' @ str_nat (i + 1))))),
            (''accept_action'', JStr (if int i < int (length us) - 1
               then ''to_upsell_'' @ str_nat (i + 2) else ''to_thank_you'')),
            (''decline_action'', JStr (if int i < int (length us) - 1
               then ''to_upsell_'' @ str_nat (i + 2) else ''to_thank_you''))])"
  unfolding downsell_node_def Let_def
  by (subst py_get_dict[OF assms]) (simp only: bind_exn.simps)

lemma upsell_node_dict:
  assumes "is_dict u"
  shows "upsell_node us i u = Inr (JDict
           [(''id'', JStr (''upsell_'' @ str_nat (i + 1))),
            (''type'', JStr ''upsell''),
            (''name'', projr (py_get u ''product_name'' (JStr (''Upsell '' @ str_nat (i + 1))))),
            (''accept_action'', JStr (if int i < int (length us) - 1
               then ''to_upsell_'' @ str_nat (i + 2) else ''to_thank_you'')),
            (''decline_action'', JStr (''to_downsell_'' @ str_nat (i + 1)))])"
  unfolding upsell_node_def
  by (subst py_get_dict[OF assms]) (simp only: bind_exn.simps)

text \<open>With dictionaries for offers, as \<open>generate_funnel\<close> passes them, the flow is built.\<close>

lemma design_funnel_flow_dicts:
  assumes us: "list_all is_dict us" and ds: "list_all is_dict ds"
  shows "design_funnel_flow mp us ds =
     Inr ([main_node] @ map (\<lambda>x. projr (upsell_node us (fst x) (snd x))) (enumerate 0 us)
           @ map (\<lambda>x. projr (downsell_node us (fst x) (snd x))) (enumerate 0 ds)
           @ [thank_you_node])"
proof -
  have 1: "sequence_exn (map (\<lambda>(i, upsell). upsell_node us i upsell) (enumerate 0 us))
         = Inr (map (\<lambda>x. projr (upsell_node us (fst x) (snd x))) (enumerate 0 us))"
  proof (rule sequence_exn_map_Inr)
    fix x assume "x \<in> set (enumerate 0 us)"
    then have "is_dict (snd x)"
      using us in_set_enumerate_snd by (fastforce simp: list_all_iff)
    then show "(case x of (i, upsell) \<Rightarrow> upsell_node us i upsell)
                 = Inr (projr (upsell_node us (fst x) (snd x)))"
      by (simp add: upsell_node_dict case_prod_beta)
  qed
  have 2: "sequence_exn (map (\<lambda>(i, downsell). downsell_node us i downsell) (enumerate 0 ds))
         = Inr (map (\<lambda>x. projr (downsell_node us (fst x) (snd x))) (enumerate 0 ds))"
  proof (rule sequence_exn_map_Inr)
    fix x assume "x \<in> set (enumerate 0 ds)"
    then have "is_dict (snd x)"
      using ds in_set_enumerate_snd by (fastforce simp: list_all_iff)
    then show "(case x of (i, downsell) \<Rightarrow> downsell_node us i downsell)
                 = Inr (projr (downsell_node us (fst x) (snd x)))"
      by (simp add: downsell_node_dict case_prod_beta)
  qed
  show ?thesis unfolding design_funnel_flow_def 1 2 by (simp only: bind_exn.simps)
qed

lemma node_field_downsell:
  "is_dict d \<Longrightarrow>
     node_field ''id'' (projr (downsell_node us i d)) = JStr (''downsell_'' @ str_nat (i + 1))"
  by (simp add: downsell_node_dict node_field_def)

lemma flow_no_upsells:
  assumes "list_all is_dict ds"
  shows "\<exists>flow. design_funnel_flow mp [] ds = Inr flow
       \<and> node_field ''id'' (hd flow) = JStr ''main''
       \<and> node_field ''accept_action'' (hd flow) = JStr ''to_upsell_1''
       \<and> JStr ''upsell_1'' \<notin> set (node_ids flow)"
proof -
  have "\<And>x. x \<in> set (enumerate 0 ds) \<Longrightarrow> is_dict (snd x)"
    using assms in_set_enumerate_snd by (fastforce simp: list_all_iff)
  then have "JStr ''upsell_1''
      \<notin> (\<lambda>x. node_field ''id'' (projr (downsell_node [] (fst x) (snd x)))) ` set (enumerate 0 ds)"
    by (auto simp: node_field_downsell)
  then show ?thesis
    unfolding design_funnel_flow_dicts[OF list.pred_inject(1) assms]
    by (simp add: node_ids_def main_node_def thank_you_node_def node_field_def image_image)
qed

lemma funnel_flow_of_funnel:
  "funnel_flow_of (JDict
       [(''main_page'', mp), (''upsells'', us), (''downsells'', ds),
        (''funnel_flow'', JList flow), (''customizations'', c), (''base_analysis'', a)]) = flow"
  by (simp add: funnel_flow_of_def node_field_def)

text \<open>
  Claim C3. With \<open>num_upsells = 0\<close> the funnel is produced, the first node of its flow is
  \<open>main\<close>, the accept action of that node is the literal \<open>to_upsell_1\<close>, and no node of
  the flow has the id \<open>upsell_1\<close>.
\<close>

theorem no_upsells_dangling_accept:
  assumes a: "is_dict analysis"
    and u: "py_get customizations ''num_upsells'' (JInt 10) = Inr (JInt 0)"
    and d: "py_get customizations ''num_downsells'' (JInt 10) = Inr (JInt D)"
  shows "\<exists>funnel. generate_funnel generate_copy analysis customizations = Inr funnel
       \<and> node_field ''id'' (hd (funnel_flow_of funnel)) = JStr ''main''
       \<and> node_field ''accept_action'' (hd (funnel_flow_of funnel)) = JStr ''to_upsell_1''
       \<and> JStr ''upsell_1'' \<notin> set (node_ids (funnel_flow_of funnel))"
proof -
  have c: "is_dict customizations" using u by (rule py_get_Inr_is_dict)
  define info where "info = JDict [(''product_type'', projr (py_get analysis ''product_type'' (JStr ''product''))),
       (''brand_name'', projr (py_get customizations ''brand_name'' (JStr ''Our Product'')))]"
  define ds where "ds = map (\<lambda>i. generate_upsell info ''downsell'' (int i + 1)) [0..<nat D]"
  have "list_all is_dict ds" by (simp add: ds_def list_all_iff generate_upsell_is_dict)
  from flow_no_upsells[OF this, of "generate_copy analysis customizations"]
  obtain flow where f: "design_funnel_flow (generate_copy analysis customizations) [] ds = Inr flow"
    and p: "node_field ''id'' (hd flow) = JStr ''main''"
       "node_field ''accept_action'' (hd flow) = JStr ''to_upsell_1''"
       "JStr ''upsell_1'' \<notin> set (node_ids flow)" by blast
  have "generate_funnel generate_copy analysis customizations = Inr (JDict
       [(''main_page'', generate_copy analysis customizations), (''upsells'', JList []), (''downsells'', JList ds),
        (''funnel_flow'', JList flow), (''customizations'', customizations), (''base_analysis'', analysis)])"
    unfolding generate_funnel_def Let_def
    by (subst py_get_dict[OF a], subst py_get_dict[OF c])
       (simp add: u d f[unfolded ds_def info_def] ds_def info_def)
  then show ?thesis using p by (simp add: funnel_flow_of_funnel)
qed

theorem no_upsells_dangling_accept_witness:
  "is_dict (JDict [])
   \<and> py_get (JDict [(''num_upsells'', JInt 0), (''num_downsells'', JInt 2)]) ''num_upsells'' (JInt 10) = Inr (JInt 0)
   \<and> py_get (JDict [(''num_upsells'', JInt 0), (''num_downsells'', JInt 2)]) ''num_downsells'' (JInt 10) = Inr (JInt 2)
   \<and> (\<exists>funnel. generate_funnel (\<lambda>a c. JNull) (JDict [])
           (JDict [(''num_upsells'', JInt 0), (''num_downsells'', JInt 2)]) = Inr funnel
       \<and> node_field ''id'' (hd (funnel_flow_of funnel)) = JStr ''main''
       \<and> node_field ''accept_action'' (hd (funnel_flow_of funnel)) = JStr ''to_upsell_1''
       \<and> JStr ''upsell_1'' \<notin> set (node_ids (funnel_flow_of funnel)))"
  using no_upsells_dangling_accept[of "JDict []" "JDict [(''num_upsells'', JInt 0), (''num_downsells'', JInt 2)]" 2 "\<lambda>a c. JNull"]
  by simp

text \<open>
  Claim C1. With two upsells and one downsell the flow has two upsell nodes and one
  downsell node, but the decline action of \<open>upsell_2\<close> is \<open>to_downsell_2\<close> and no node
  has the id \<open>downsell_2\<close>: the decline action is written without the test on the number
  of nodes that the accept action has.
\<close>

theorem flow_two_upsells_one_downsell:
  "\<exists>funnel. generate_funnel generate_copy (JDict [])
       (JDict [(''num_upsells'', JInt 2), (''num_downsells'', JInt 1)]) = Inr funnel
     \<and> length (nodes_of_type ''upsell'' (funnel_flow_of funnel)) = 2
     \<and> length (nodes_of_type ''downsell'' (funnel_flow_of funnel)) = 1
     \<and> node_field ''id'' (funnel_flow_of funnel ! 2) = JStr ''upsell_2''
     \<and> node_field ''decline_action'' (funnel_flow_of funnel ! 2) = JStr ''to_downsell_2''
     \<and> JStr ''downsell_2'' \<notin> set (node_ids (funnel_flow_of funnel))
     \<and> dangling_targets (funnel_flow_of funnel) = [JStr ''downsell_2'']"
proof -
  have "map_sum id (\<lambda>funnel. let flow = funnel_flow_of funnel in
          (length (nodes_of_type ''upsell'' flow), length (nodes_of_type ''downsell'' flow),
           node_field ''id'' (flow ! 2), node_field ''decline_action'' (flow ! 2),
           JStr ''downsell_2'' \<in> set (node_ids flow), dangling_targets flow))
        (generate_funnel generate_copy (JDict [])
           (JDict [(''num_upsells'', JInt 2), (''num_downsells'', JInt 1)]))
      = Inr (2, 1, JStr ''upsell_2'', JStr ''to_downsell_2'', False, [JStr ''downsell_2''])"
    by code_simp
  then show ?thesis
    by (cases "generate_funnel generate_copy (JDict [])
           (JDict [(''num_upsells'', JInt 2), (''num_downsells'', JInt 1)])") (simp_all add: Let_def)
qed

lemma bind_exn_Inr_iff: "bind_exn m f = Inr y \<longleftrightarrow> (\<exists>x. m = Inr x \<and> f x = Inr y)"
  by (cases m) auto

lemma bind_exn_Inl_iff:
  "bind_exn m f = Inl e \<longleftrightarrow> m = Inl e \<or> (\<exists>x. m = Inr x \<and> f x = Inl e)"
  by (cases m) auto

lemma py_get_not_dict: "\<not> is_dict d \<Longrightarrow> py_get d k v = Inl (no_attribute d ''get'')"
  by (cases d) simp_all

section \<open>Properties of the page analyzer\<close>

text \<open>
  Claim C5. \<open>analyze_page\<close> returns a dictionary on every input. When the body of the
  \<open>try\<close> faults (here: \<open>urlparse\<close> raises), the dictionary has \<open>error\<close> set to the
  message, and of the fields of the Analysis record exactly one is absent: \<open>title\<close>.
\<close>

theorem analyze_page_fault_omits_title:
  "node_field ''error'' (analyze_page (\<lambda>u. Inl e) page_data url) = JStr (exn_str e)
   \<and> filter (\<lambda>k. k \<notin> set (dict_keys (analyze_page (\<lambda>u. Inl e) page_data url))) analysis_fields
       = [''title'']"
proof -
  have "analyze_page (\<lambda>u. Inl e) page_data url = JDict
         [(''url'', JStr url),
          (''error'', JStr (exn_str e)),
          (''product_type'', JStr ''Unknown''),
          (''main_hook'', JStr ''Could not analyze''),
          (''target_audience'', JStr ''Unknown''),
          (''key_benefits'', JList []),
          (''pain_points'', JList []),
          (''unique_selling_points'', JList []),
          (''pricing_strategy'', JStr ''Unknown''),
          (''cta_strategy'', JStr ''Unknown''),
          (''persuasion_techniques'', JList []),
          (''structure_analysis'', JStr ''Failed to analyze''),
          (''content_tone'', JStr ''Unknown''),
          (''suggested_improvements'', JList [])]"
    unfolding analyze_page_def by (simp only: bind_exn.simps sum.case)
  then show ?thesis
    by (simp add: node_field_def dict_keys_def analysis_fields_def)
qed

section \<open>Properties of the email sequence generator\<close>

lemma build_prompt_brand:
  "build_prompt params mp us cs = Inr (b, p) \<Longrightarrow> py_get cs ''brand_name'' (JStr ''Our Product'') = Inr b"
  unfolding build_prompt_def Let_def
  by (auto simp: bind_exn_Inr_iff split: if_splits)

lemma generate_email_sequence_dict:
  "generate_email_sequence chat loads (JDict kvs) params0 =
    (let params = (if params0 = JNull then JDict [] else params0);
         main_page = (case map_of kvs ''main_page'' of None \<Rightarrow> JDict [] | Some v \<Rightarrow> v);
         upsells = (case map_of kvs ''upsells'' of None \<Rightarrow> JList [] | Some v \<Rightarrow> v);
         customizations = (case map_of kvs ''customizations'' of None \<Rightarrow> JDict [] | Some v \<Rightarrow> v)
     in case bind_exn (build_prompt params main_page upsells customizations) (\<lambda>(brand_name, prompt).
               request_sequence chat loads brand_name prompt) of
            Inr email_sequence \<Rightarrow> Inr email_sequence
          | Inl e \<Rightarrow>
              bind_exn (py_get customizations ''brand_name'' (JStr ''Our Product'')) (\<lambda>brand_name.
              Inr (fallback_sequence e brand_name)))"
  by (simp add: generate_email_sequence_def Let_def)

lemma fallback_sequence_fields:
  "node_field ''num_emails'' (fallback_sequence e b) = JInt 3"
  "node_field ''error'' (fallback_sequence e b) = JStr (exn_str e)"
  "''error'' \<in> set (dict_keys (fallback_sequence e b))"
  by (simp_all add: fallback_sequence_def node_field_def dict_keys_def)

lemma request_sequence_faults:
  "chat prompt = Inl e \<Longrightarrow> request_sequence chat loads b prompt = Inl e"
  "chat prompt = Inr c \<Longrightarrow> loads_content loads c = Inl e
     \<Longrightarrow> request_sequence chat loads b prompt = Inl e"
  "chat prompt = Inr c \<Longrightarrow> loads_content loads c = Inr v \<Longrightarrow> \<not> is_dict v
     \<Longrightarrow> request_sequence chat loads b prompt = Inl (no_attribute v ''get'')"
  by (simp_all add: request_sequence_def py_get_not_dict)

lemma request_sequence_no_emails:
  "chat prompt = Inr c \<Longrightarrow> loads_content loads c = Inr (JDict kvs) \<Longrightarrow> map_of kvs ''emails'' = None
     \<Longrightarrow> request_sequence chat loads b prompt
         = Inr (dict_set ''brand_name'' b (dict_set ''num_emails'' (JInt 0) (JDict kvs)))"
  by (simp add: request_sequence_def)

text \<open>
  Claim C6. When the statements before the request have built the prompt and the request
  faults (it raises, or its content is not JSON text, or the JSON value is not an object),
  \<open>generate_email_sequence\<close> returns the fallback sequence: \<open>num_emails\<close> is 3 and
  \<open>error\<close> is the message of the fault.
\<close>

theorem email_fallback_on_request_fault:
  assumes reach: "build_prompt (if params = JNull then JDict [] else params)
                    (case map_of kvs ''main_page'' of None \<Rightarrow> JDict [] | Some v \<Rightarrow> v)
                    (case map_of kvs ''upsells'' of None \<Rightarrow> JList [] | Some v \<Rightarrow> v)
                    (case map_of kvs ''customizations'' of None \<Rightarrow> JDict [] | Some v \<Rightarrow> v)
                  = Inr (brand_name, prompt)"
    and fault: "request_fault chat loads prompt e"
  shows "generate_email_sequence chat loads (JDict kvs) params = Inr (fallback_sequence e brand_name)
       \<and> node_field ''num_emails'' (fallback_sequence e brand_name) = JInt 3
       \<and> node_field ''error'' (fallback_sequence e brand_name) = JStr (exn_str e)"
proof -
  have "request_sequence chat loads brand_name prompt = Inl e"
    using fault unfolding request_fault_def
    by (auto split: sum.splits simp: request_sequence_faults)
  then show ?thesis
    unfolding generate_email_sequence_dict Let_def reach
    by (simp add: build_prompt_brand[OF reach] fallback_sequence_fields)
qed

text \<open>
  Claim C10. When \<open>funnel_data\<close> is not a dictionary the first statement of the \<open>try\<close>
  block raises before \<open>customizations\<close> is bound, the handler raises
  \<open>UnboundLocalError\<close>, and that exception reaches the caller. So whenever the function
  returns a sequence, \<open>funnel_data\<close> was a dictionary and \<open>customizations\<close> was bound.
\<close>

theorem email_unbound_customizations:
  "(\<not> is_dict funnel_data \<longrightarrow>
      generate_email_sequence chat loads funnel_data params = Inl unbound_customizations)
   \<and> (\<forall>r. generate_email_sequence chat loads funnel_data params = Inr r \<longrightarrow> is_dict funnel_data)"
proof (cases "is_dict funnel_data")
  case True
  then show ?thesis by simp
next
  case False
  then have "generate_email_sequence chat loads funnel_data params = Inl unbound_customizations"
    by (simp add: generate_email_sequence_def py_get_not_dict)
  then show ?thesis using False by simp
qed

theorem email_fallback_on_request_fault_witness:
  "build_prompt (if JNull = JNull then JDict [] else JNull)
      (case map_of [] ''main_page'' of None \<Rightarrow> JDict [] | Some v \<Rightarrow> v)
      (case map_of [] ''upsells'' of None \<Rightarrow> JList [] | Some v \<Rightarrow> v)
      (case map_of [] ''customizations'' of None \<Rightarrow> JDict [] | Some v \<Rightarrow> v)
    = Inr (JStr ''Our Product'',
           email_prompt ''Our Product'' ''Our Amazing Product'' '''' ''sales'' ''conversational'' ''10'')
   \<and> request_fault (\<lambda>p. Inl (ExternalError ''Connection error.'')) (\<lambda>s. Inr JNull)
        (email_prompt ''Our Product'' ''Our Amazing Product'' '''' ''sales'' ''conversational'' ''10'')
        (ExternalError ''Connection error.'')
   \<and> generate_email_sequence (\<lambda>p. Inl (ExternalError ''Connection error.'')) (\<lambda>s. Inr JNull)
        (JDict []) JNull
      = Inr (fallback_sequence (ExternalError ''Connection error.'') (JStr ''Our Product''))
   \<and> node_field ''num_emails''
        (fallback_sequence (ExternalError ''Connection error.'') (JStr ''Our Product'')) = JInt 3
   \<and> node_field ''error''
        (fallback_sequence (ExternalError ''Connection error.'') (JStr ''Our Product''))
      = JStr ''Connection error.''"
proof -
  have s: "str_int 10 = ''10''" by code_simp
  have r: "build_prompt (if JNull = JNull then JDict [] else JNull)
      (case map_of [] ''main_page'' of None \<Rightarrow> JDict [] | Some v \<Rightarrow> v)
      (case map_of [] ''upsells'' of None \<Rightarrow> JList [] | Some v \<Rightarrow> v)
      (case map_of [] ''customizations'' of None \<Rightarrow> JDict [] | Some v \<Rightarrow> v)
    = Inr (JStr ''Our Product'',
           email_prompt ''Our Product'' ''Our Amazing Product'' '''' ''sales'' ''conversational'' ''10'')"
    by (simp add: build_prompt_def py_join_def s)
  have f: "request_fault (\<lambda>p. Inl (ExternalError ''Connection error.'')) (\<lambda>s. Inr JNull)
        (email_prompt ''Our Product'' ''Our Amazing Product'' '''' ''sales'' ''conversational'' ''10'')
        (ExternalError ''Connection error.'')"
    by (simp add: request_fault_def)
  from email_fallback_on_request_fault[OF r f] r f show ?thesis by simp
qed

text \<open>
  A JSON object without the requested fields is no fault: \<open>emails\<close> defaults to the empty
  list, and the object is returned with \<open>num_emails = 0\<close> and without \<open>error\<close>.
\<close>

theorem email_missing_fields_counterexample:
  "generate_email_sequence (\<lambda>p. Inr (Some ''{}''))
       (\<lambda>s. if s = ''{}'' then Inr (JDict []) else Inl (ValueError ''Expecting value''))
       (JDict []) JNull
     = Inr (JDict [(''num_emails'', JInt 0), (''brand_name'', JStr ''Our Product'')])
   \<and> node_field ''num_emails'' (JDict [(''num_emails'', JInt 0), (''brand_name'', JStr ''Our Product'')])
       \<noteq> JInt 3
   \<and> ''error'' \<notin> set (dict_keys (JDict [(''num_emails'', JInt 0), (''brand_name'', JStr ''Our Product'')]))"
proof -
  have s: "str_int 10 = ''10''" by code_simp
  show ?thesis
    by (simp add: generate_email_sequence_dict build_prompt_def py_join_def s request_sequence_def
          loads_content_def dict_set_def node_field_def dict_keys_def)
qed

theorem email_unbound_customizations_witness:
  "\<not> is_dict (JList [])
   \<and> generate_email_sequence (\<lambda>p. Inl (ExternalError ''Connection error.'')) (\<lambda>s. Inr JNull)
        (JList []) JNull = Inl unbound_customizations
   \<and> generate_email_sequence (\<lambda>p. Inl (ExternalError ''Connection error.'')) (\<lambda>s. Inr JNull)
        (JDict []) JNull
      = Inr (fallback_sequence (ExternalError ''Connection error.'') (JStr ''Our Product''))
   \<and> is_dict (JDict [])"
proof -
  have s: "str_int 10 = ''10''" by code_simp
  have "generate_email_sequence (\<lambda>p. Inl (ExternalError ''Connection error.'')) (\<lambda>s. Inr JNull)
        (JDict []) JNull
      = Inr (fallback_sequence (ExternalError ''Connection error.'') (JStr ''Our Product''))"
    by (simp add: generate_email_sequence_dict build_prompt_def py_join_def s request_sequence_def)
  then show ?thesis
    using email_unbound_customizations
            [of "JList []" "\<lambda>p. Inl (ExternalError ''Connection error.'')" "\<lambda>s. Inr JNull" JNull]
          email_unbound_customizations
            [of "JDict []" "\<lambda>p. Inl (ExternalError ''Connection error.'')" "\<lambda>s. Inr JNull" JNull]
    by simp
qed

section \<open>Properties of the exporter\<close>

lemma Inr_projr: "\<exists>x. m = Inr x \<Longrightarrow> m = Inr (projr m)"
  by auto

lemma sequence_enumerate:
  assumes "\<And>i x. x \<in> set xs \<Longrightarrow> f i x = Inr (g i x)"
  shows "sequence_exn (map (\<lambda>(i, x). f i x) (enumerate n xs))
           = Inr (map (\<lambda>(i, x). g i x) (enumerate n xs))"
proof -
  have "sequence_exn (map (\<lambda>p. f (fst p) (snd p)) (enumerate n xs))
           = Inr (map (\<lambda>p. g (fst p) (snd p)) (enumerate n xs))"
    by (rule sequence_exn_map_Inr) (simp add: assms in_set_enumerate_snd)
  then show ?thesis by (simp add: split_def)
qed

lemma is_object_list_cases:
  assumes "is_object_list v"
  obtains xs where "v = JList xs" "list_all is_dict xs"
  using assms by (cases v) simp_all

lemma items_of_entry:
  assumes "entry_ok is_object_list kvs k"
  shows "(case map_of kvs k of None \<Rightarrow> JList [] | Some v \<Rightarrow> v) = JList (items_of (JDict kvs) k)"
    and "list_all is_dict (items_of (JDict kvs) k)"
  using assms
  by (auto simp: entry_ok_def items_of_def split: option.splits elim!: is_object_list_cases)

lemma dict_entry:
  assumes "entry_ok is_dict kvs k"
  shows "is_dict (projr (py_get (JDict kvs) k (JDict [])))"
  using assms by (auto simp: entry_ok_def split: option.splits)

lemma create_html_page_dict:
  "is_dict page \<Longrightarrow> create_html_page r page t = Inr (projr (create_html_page r page t))"
  by (cases page; cases "r (t @ ''.html'') page") (simp_all add: create_html_page_def)

lemma page_file_dict:
  "is_dict page \<Longrightarrow> page_file env t i page
     = Inr (t @ ''_'' @ str_nat (i + 1) @ ''.html'',
            projr (create_html_page (render_template env) page t))"
  unfolding page_file_def by (subst create_html_page_dict) simp_all

lemma email_file_dict:
  "is_dict email \<Longrightarrow> email_file i email
     = Inr (''emails/email_'' @ str_nat (i + 1) @ ''.txt'',
            email_content
              (py_str (projr (py_get email ''subject'' (JStr (''Email '' @ str_nat (i + 1))))))
              (py_str (projr (py_get email ''body'' (JStr ''Email content'')))))"
  by (cases email) (simp_all add: email_file_def)

lemma timing_line_ok:
  "entry_ok is_dict kvs ''timing'' \<Longrightarrow> \<exists>l. timing_line (JDict kvs) i = Inr l"
  by (auto simp: timing_line_def entry_ok_def bind_exn_Inr_iff intro: py_get_dict split: option.splits)

lemma email_docs_ok:
  assumes "emails_ok (JDict kvs)"
  shows "\<exists>d. email_docs (JDict kvs) = Inr d"
proof -
  from assms have e: "entry_ok is_object_list kvs ''emails''" and t: "entry_ok is_dict kvs ''timing''"
    by simp_all
  have "\<exists>ls. sequence_exn (map (timing_line (JDict kvs)) ns) = Inr ls" for ns
    using sequence_exn_map_Inr[of ns "timing_line (JDict kvs)" "\<lambda>i. projr (timing_line (JDict kvs) i)"]
      timing_line_ok[OF t] by (metis Inr_projr)
  then show ?thesis
    unfolding email_docs_def
    by (simp add: bind_exn_Inr_iff items_of_entry(1)[OF e])
qed

lemma email_files_ok:
  assumes "emails_ok (JDict kvs)"
  shows "email_files (JDict kvs) =
     Inr (map (\<lambda>(i, email).
            (''emails/email_'' @ str_nat (i + 1) @ ''.txt'',
             email_content
               (py_str (projr (py_get email ''subject'' (JStr (''Email '' @ str_nat (i + 1))))))
               (py_str (projr (py_get email ''body'' (JStr ''Email content''))))))
            (enumerate 0 (items_of (JDict kvs) ''emails''))
          @ [(''emails/README.txt'', projr (email_docs (JDict kvs)))])"
proof -
  from assms have e: "entry_ok is_object_list kvs ''emails''" by simp
  have d: "email_docs (JDict kvs) = Inr (projr (email_docs (JDict kvs)))"
    by (rule Inr_projr) (rule email_docs_ok[OF assms])
  have s: "sequence_exn (map (\<lambda>(i, email). email_file i email)
               (enumerate 0 (items_of (JDict kvs) ''emails'')))
     = Inr (map (\<lambda>(i, email).
            (''emails/email_'' @ str_nat (i + 1) @ ''.txt'',
             email_content
               (py_str (projr (py_get email ''subject'' (JStr (''Email '' @ str_nat (i + 1))))))
               (py_str (projr (py_get email ''body'' (JStr ''Email content''))))))
            (enumerate 0 (items_of (JDict kvs) ''emails'')))"
    by (rule sequence_enumerate)
       (use items_of_entry(2)[OF e] in \<open>simp add: list_all_iff email_file_dict\<close>)
  show ?thesis
    unfolding email_files_def
    by (subst d) (simp add: items_of_entry(1)[OF e] s)
qed

lemma generate_js_ok: "\<exists>js. generate_js (JDict kvs) = Inr js"
  by (simp add: generate_js_def)

lemma create_thank_you_page_ok:
  "entry_ok is_dict kvs ''customizations'' \<Longrightarrow> \<exists>h. create_thank_you_page (JDict kvs) = Inr h"
  by (auto simp: create_thank_you_page_def entry_ok_def bind_exn_Inr_iff intro: py_get_dict
        split: option.splits)

lemma generate_documentation_ok:
  assumes "entry_ok is_dict kvs ''customizations''"
    and "entry_ok is_object_list kvs ''upsells''" and "entry_ok is_object_list kvs ''downsells''"
  shows "\<exists>d. generate_documentation env project (JDict kvs) = Inr d"
proof -
  obtain c where c: "(case map_of kvs ''customizations'' of None \<Rightarrow> JDict [] | Some v \<Rightarrow> v) = JDict c"
    using assms(1) by (cases "map_of kvs ''customizations''") (auto simp: entry_ok_def elim: is_dict.elims)
  show ?thesis
    unfolding generate_documentation_def
    by (simp add: bind_exn_Inr_iff c items_of_entry(1)[OF assms(2)] items_of_entry(1)[OF assms(3)])
qed

lemma pages_sequence:
  assumes "list_all is_dict pages"
  shows "sequence_exn (map (\<lambda>(i, page). page_file env t i page) (enumerate 0 pages))
     = Inr (map (\<lambda>(i, page). (t @ ''_'' @ str_nat (i + 1) @ ''.html'',
                                projr (create_html_page (render_template env) page t)))
              (enumerate 0 pages))"
  by (rule sequence_enumerate) (use assms in \<open>simp add: list_all_iff page_file_dict\<close>)

lemma emails_ok_cases:
  assumes "emails_ok es"
  obtains "\<not> truthy es" | kvs where "es = JDict kvs" "truthy es"
  using assms by (cases es) auto

lemma create_zip_export_ready:
  assumes m: "makedirs env = Inr u1"
    and f: "load_blob env (project_funnel_data project) = Inr fd"
    and e: "load_blob env (project_email_sequence project) = Inr es"
    and z: "open_zip env (exports_dir env @ ''/'' @ str_int (project_id project) @ ''.zip'') = Inr u2"
    and fok: "funnel_ok fd" and eok: "emails_ok es"
  shows "create_zip_export env project =
     Inr (exports_dir env @ ''/'' @ str_int (project_id project) @ ''.zip'',
       [(''index.html'', projr (create_html_page (render_template env)
                                  (projr (py_get fd ''main_page'' (JDict []))) ''main'')),
        (''style.css'', generate_css),
        (''funnel.js'', projr (generate_js fd))]
       @ map (\<lambda>(i, page). (''upsell'' @ ''_'' @ str_nat (i + 1) @ ''.html'',
                projr (create_html_page (render_template env) page ''upsell'')))
           (enumerate 0 (items_of fd ''upsells''))
       @ map (\<lambda>(i, page). (''downsell'' @ ''_'' @ str_nat (i + 1) @ ''.html'',
                projr (create_html_page (render_template env) page ''downsell'')))
           (enumerate 0 (items_of fd ''downsells''))
       @ [(''thank_you.html'', projr (create_thank_you_page fd))]
       @ (if truthy es then
            map (\<lambda>(i, email).
              (''emails/email_'' @ str_nat (i + 1) @ ''.txt'',
               email_content
                 (py_str (projr (py_get email ''subject'' (JStr (''Email '' @ str_nat (i + 1))))))
                 (py_str (projr (py_get email ''body'' (JStr ''Email content''))))))
              (enumerate 0 (items_of es ''emails''))
            @ [(''emails/README.txt'', projr (email_docs es))]
          else [])
       @ [(''README.txt'', projr (generate_documentation env project fd))])"
proof -
  from fok obtain kvs where fd: "fd = JDict kvs" and ne: "kvs \<noteq> []"
    and mp: "entry_ok is_dict kvs ''main_page''" and us: "entry_ok is_object_list kvs ''upsells''"
    and ds: "entry_ok is_object_list kvs ''downsells''" and cs: "entry_ok is_dict kvs ''customizations''"
    by (cases fd) auto
  have t: "truthy fd" using fd ne by simp
  obtain main_page where g1: "py_get fd ''main_page'' (JDict []) = Inr main_page"
    and mpd: "is_dict main_page"
    using dict_entry[OF mp] by (simp add: fd)
  obtain main_html where h1: "create_html_page (render_template env) main_page ''main'' = Inr main_html"
    using create_html_page_dict[OF mpd] by blast
  obtain js where j: "generate_js fd = Inr js"
    unfolding fd using generate_js_ok by blast
  have gu: "py_get fd ''upsells'' (JList []) = Inr (JList (items_of fd ''upsells''))"
    by (simp add: fd items_of_entry(1)[OF us])
  have gd: "py_get fd ''downsells'' (JList []) = Inr (JList (items_of fd ''downsells''))"
    by (simp add: fd items_of_entry(1)[OF ds])
  obtain thank_you where ty: "create_thank_you_page fd = Inr thank_you"
    unfolding fd using create_thank_you_page_ok[OF cs] by blast
  obtain documentation where doc: "generate_documentation env project fd = Inr documentation"
    unfolding fd using generate_documentation_ok[OF cs us ds] by blast
  obtain docs where ed: "truthy es \<Longrightarrow> email_docs es = Inr docs"
    using eok email_docs_ok by (cases es) auto
  have em: "(if truthy es then email_files es else Inr []) =
      Inr (if truthy es then
            map (\<lambda>(i, email).
              (''emails/email_'' @ str_nat (i + 1) @ ''.txt'',
               email_content
                 (py_str (projr (py_get email ''subject'' (JStr (''Email '' @ str_nat (i + 1))))))
                 (py_str (projr (py_get email ''body'' (JStr ''Email content''))))))
              (enumerate 0 (items_of es ''emails''))
            @ [(''emails/README.txt'', docs)]
          else [])"
    using eok
  proof (cases rule: emails_ok_cases)
    case 1
    then show ?thesis by simp
  next
    case (2 ekvs)
    with eok email_files_ok[of ekvs] ed show ?thesis by simp
  qed
  show ?thesis
    unfolding create_zip_export_def Let_def m f e z
    by (simp only: bind_exn.simps t not_True_eq_False if_False g1 h1 j gu gd py_iter.simps
          pages_sequence[OF items_of_entry(2)[OF us, folded fd]]
          pages_sequence[OF items_of_entry(2)[OF ds, folded fd]] ty em doc sum.sel ed
          if_distrib[of "\<lambda>x. x @ _"] append_Nil cong: if_cong)
qed

lemma digit_char_inj: "a < 10 \<Longrightarrow> b < 10 \<Longrightarrow> digit_char a = digit_char b \<Longrightarrow> a = b"
proof -
  assume a: "a < 10" and b: "b < 10" and e: "digit_char a = digit_char b"
  have d: "distinct ''0123456789abcdef''" by simp
  have "a < length ''0123456789abcdef''" "b < length ''0123456789abcdef''" using a b by simp_all
  with d e show ?thesis unfolding digit_char_def by (simp only: nth_eq_iff_index_eq)
qed

lemma str_nat_nonempty: "str_nat n \<noteq> []"
  by (subst str_nat.simps) simp

lemma str_nat_inj: "str_nat n = str_nat m \<Longrightarrow> n = m"
proof (induction n arbitrary: m rule: str_nat.induct)
  case (1 n)
  show ?case
  proof (cases "n < 10")
    case True
    then have n: "str_nat n = [digit_char n]" by (subst str_nat.simps) simp
    show ?thesis
    proof (cases "m < 10")
      case mt: True
      then have "str_nat m = [digit_char m]" by (subst str_nat.simps) simp
      with n "1.prems" True mt show ?thesis by (simp add: digit_char_inj)
    next
      case False
      then have "str_nat m = str_nat (m div 10) @ [digit_char (m mod 10)]"
        by (subst str_nat.simps) simp
      with n "1.prems" str_nat_nonempty[of "m div 10"] show ?thesis
        by (cases "str_nat (m div 10)") simp_all
    qed
  next
    case False
    then have n: "str_nat n = str_nat (n div 10) @ [digit_char (n mod 10)]"
      by (subst str_nat.simps) simp
    show ?thesis
    proof (cases "m < 10")
      case True
      then have "str_nat m = [digit_char m]" by (subst str_nat.simps) simp
      with n "1.prems" str_nat_nonempty[of "n div 10"] show ?thesis
        by (cases "str_nat (n div 10)") simp_all
    next
      case mf: False
      then have "str_nat m = str_nat (m div 10) @ [digit_char (m mod 10)]"
        by (subst str_nat.simps) simp
      with n "1.prems" have p: "str_nat (n div 10) = str_nat (m div 10)"
        and q: "digit_char (n mod 10) = digit_char (m mod 10)" by simp_all
      from "1.IH"[OF False p] have "n div 10 = m div 10" .
      moreover from q have "n mod 10 = m mod 10" by (simp add: digit_char_inj)
      ultimately show ?thesis by (metis div_mult_mod_eq)
    qed
  qed
qed

lemma map_of_enumerate:
  assumes inj: "\<And>a b. nm a = nm b \<Longrightarrow> a = b" and i: "i < length xs"
  shows "map_of (map (\<lambda>(j, x). (nm j, c j x)) (enumerate n xs)) (nm (n + i)) = Some (c (n + i) (xs ! i))"
  using i
proof (induction xs arbitrary: n i)
  case Nil
  then show ?case by simp
next
  case (Cons x xs)
  show ?case
  proof (cases i)
    case 0
    then show ?thesis by simp
  next
    case (Suc k)
    then have k: "k < length xs" using Cons.prems by simp
    have "nm n \<noteq> nm (n + i)" using inj[of n "n + i"] Suc by auto
    with Cons.IH[OF k, of "Suc n"] Suc show ?thesis by simp
  qed
qed

lemma map_of_none: "k \<notin> fst ` set xs \<Longrightarrow> map_of xs k = None"
  by (simp add: map_of_eq_None_iff)

lemma export_ready_cases:
  assumes "export_ready env project"
  obtains u1 fd es u2 where "makedirs env = Inr u1"
    "load_blob env (project_funnel_data project) = Inr fd"
    "load_blob env (project_email_sequence project) = Inr es"
    "open_zip env (exports_dir env @ ''/'' @ str_int (project_id project) @ ''.zip'') = Inr u2"
    "funnel_ok fd" "emails_ok es"
  using assms unfolding export_ready_def by (auto split: sum.splits)

lemma load_blob_render:
  "load_blob (env\<lparr>render_template := r\<rparr>) blob = load_blob env blob"
  by (cases blob) (simp_all add: load_blob_def)

lemma export_ready_render:
  "export_ready (env\<lparr>render_template := r\<rparr>) project = export_ready env project"
  by (simp add: export_ready_def load_blob_render cong: sum.case_cong)

lemma str_nat_small:
  "str_nat (Suc 0) = ''1''" "str_nat 2 = ''2''" "str_nat 3 = ''3''"
  "str_nat (Suc (Suc 0)) = ''2''" "str_nat (Suc (Suc (Suc 0))) = ''3''"
  by code_simp+

lemma upt_small: "[0..<2] = [0, Suc 0]" "[0..<3] = [0, Suc 0, 2]"
  by (simp_all add: numeral_2_eq_2 numeral_3_eq_3)

text \<open>
  Claim C7. A well-shaped project with two upsells, two downsells and three emails is
  exported, and the names of the archive, in the order written, are the thirteen names
  \<open>index.html\<close>, \<open>style.css\<close>, \<open>funnel.js\<close>, \<open>upsell_1.html\<close>, \<open>upsell_2.html\<close>,
  \<open>downsell_1.html\<close>, \<open>downsell_2.html\<close>, \<open>thank_you.html\<close>, \<open>emails/email_1.txt\<close>,
  \<open>emails/email_2.txt\<close>, \<open>emails/email_3.txt\<close>, \<open>emails/README.txt\<close> and \<open>README.txt\<close>.
\<close>

theorem export_thirteen_entries:
  assumes ready: "export_ready env project"
    and f: "load_blob env (project_funnel_data project) = Inr fd"
    and e: "load_blob env (project_email_sequence project) = Inr es"
    and us: "length (items_of fd ''upsells'') = 2"
    and ds: "length (items_of fd ''downsells'') = 2"
    and ems: "length (items_of es ''emails'') = 3"
  shows "(\<exists>path entries. create_zip_export env project = Inr (path, entries))
       \<and> archive_names (create_zip_export env project) =
           [''index.html'', ''style.css'', ''funnel.js'', ''upsell_1.html'', ''upsell_2.html'',
            ''downsell_1.html'', ''downsell_2.html'', ''thank_you.html'',
            ''emails/email_1.txt'', ''emails/email_2.txt'', ''emails/email_3.txt'',
            ''emails/README.txt'', ''README.txt'']"
proof -
  from ready f e obtain u1 u2 where m: "makedirs env = Inr u1"
    and z: "open_zip env (exports_dir env @ ''/'' @ str_int (project_id project) @ ''.zip'') = Inr u2"
    and fok: "funnel_ok fd" and eok: "emails_ok es"
    by (elim export_ready_cases) simp
  have t: "truthy es" using ems by (cases es) (auto simp: items_of_def)
  have n: "map fst (map (\<lambda>(i, x). (nm i, c i x)) (enumerate 0 xs)) = map nm [0..<length xs]"
    for nm :: "nat \<Rightarrow> string" and c :: "nat \<Rightarrow> json \<Rightarrow> string" and xs
  proof -
    have "map fst (map (\<lambda>(i, x). (nm i, c i x)) (enumerate 0 xs))
            = map nm (map fst (enumerate 0 xs))"
      by (simp only: map_map comp_def split_def fst_conv)
    then show ?thesis by simp
  qed
  show ?thesis
    unfolding create_zip_export_ready[OF m f e z fok eok] archive_names_def
    by (simp add: t n us ds ems upt_small str_nat_small del: map_map)
qed

lemma demo_loads:
  "load_blob demo_env (Some demo_funnel_text) = Inr demo_funnel"
  "load_blob demo_env (Some demo_emails_text) = Inr demo_emails"
  "load_blob demo_env (Some bad_emails_text) = Inr bad_emails"
  "load_blob demo_env None = Inr JNull"
  by (simp_all add: load_blob_def demo_env_def demo_funnel_text_def demo_emails_text_def
        bad_emails_text_def)

lemma demo_ready: "export_ready demo_env demo_project"
proof -
  have "makedirs demo_env = Inr ()" "open_zip demo_env = (\<lambda>path. Inr ())"
    by (simp_all add: demo_env_def)
  moreover have "funnel_ok demo_funnel" "emails_ok demo_emails"
    by (simp_all add: demo_funnel_def demo_emails_def entry_ok_def)
  ultimately show ?thesis
    unfolding export_ready_def by (simp add: demo_project_def demo_loads)
qed

lemma demo_items:
  "items_of demo_funnel ''upsells'' = [JDict [], JDict []]"
  "items_of demo_funnel ''downsells'' = [JDict [], JDict []]"
  "items_of demo_emails ''emails'' =
     [JDict [(''subject'', JStr ''Hi''), (''body'', JStr ''Yo'')], JDict [], JDict []]"
  by (simp_all add: items_of_def demo_funnel_def demo_emails_def)

theorem export_thirteen_entries_witness:
  "export_ready demo_env demo_project
   \<and> load_blob demo_env (project_funnel_data demo_project) = Inr demo_funnel
   \<and> load_blob demo_env (project_email_sequence demo_project) = Inr demo_emails
   \<and> length (items_of demo_funnel ''upsells'') = 2
   \<and> length (items_of demo_funnel ''downsells'') = 2
   \<and> length (items_of demo_emails ''emails'') = 3
   \<and> (\<exists>path entries. create_zip_export demo_env demo_project = Inr (path, entries))
   \<and> archive_names (create_zip_export demo_env demo_project) =
           [''index.html'', ''style.css'', ''funnel.js'', ''upsell_1.html'', ''upsell_2.html'',
            ''downsell_1.html'', ''downsell_2.html'', ''thank_you.html'',
            ''emails/email_1.txt'', ''emails/email_2.txt'', ''emails/email_3.txt'',
            ''emails/README.txt'', ''README.txt'']"
proof -
  have f: "load_blob demo_env (project_funnel_data demo_project) = Inr demo_funnel"
    and e: "load_blob demo_env (project_email_sequence demo_project) = Inr demo_emails"
    by (simp_all add: demo_project_def demo_loads)
  have l: "length (items_of demo_funnel ''upsells'') = 2"
    "length (items_of demo_funnel ''downsells'') = 2"
    "length (items_of demo_emails ''emails'') = 3"
    by (simp_all add: demo_items)
  from export_thirteen_entries[OF demo_ready f e l] demo_ready f e l show ?thesis by simp
qed

lemma email_name_inj:
  "''emails/email_'' @ str_nat (a + 1) @ ''.txt'' = ''emails/email_'' @ str_nat (b + 1) @ ''.txt''
     \<Longrightarrow> a = b"
  using str_nat_inj[of "a + 1" "b + 1"] by simp

lemma email_content_text:
  "email_content subject body =
     [CHR 0x0A] @ ''Subject: '' @ subject @ [CHR 0x0A, CHR 0x0A] @ body @ [CHR 0x0A]
       @ replicate 20 (CHR '' '')"
  by (simp add: email_content_def numeral_eq_Suc)

lemma pages_not_email:
  "t = ''upsell'' \<or> t = ''downsell'' \<Longrightarrow>
     map_of (map (\<lambda>(i, page). (t @ ''_'' @ str_nat (i + 1) @ ''.html'', c i page)) (enumerate n pages))
       (''emails/email_'' @ k) = None"
  by (rule map_of_none) (auto simp: split_def)

lemma archive_lookup:
  assumes "r = Inr (path, a @ u @ d @ ty @ (if tr then mid @ rd else []) @ doc)" and "tr"
    and "map_of a k = None" and "map_of u k = None" and "map_of d k = None"
    and "map_of ty k = None" and "map_of mid k = Some v"
  shows "\<exists>path entries. r = Inr (path, entries) \<and> map_of entries k = Some v"
  using assms by (simp add: map_add_def)

text \<open>
  Claim C8. For a well-shaped project, the entry \<open>emails/email_i.txt\<close> of the archive holds
  the text of the triple-quoted template: a newline, \<open>Subject: \<close> and the subject, two
  newlines, the body, and then a newline and the twenty spaces that indent the closing
  quotes. The subject defaults to \<open>Email i\<close> and the body to \<open>Email content\<close>.
\<close>

theorem export_email_entry:
  assumes ready: "export_ready env project"
    and e: "load_blob env (project_email_sequence project) = Inr es"
    and i: "i < length (items_of es ''emails'')"
    and s: "py_get (items_of es ''emails'' ! i) ''subject'' (JStr (''Email '' @ str_nat (i + 1)))
              = Inr subject"
    and b: "py_get (items_of es ''emails'' ! i) ''body'' (JStr ''Email content'') = Inr body"
  shows "\<exists>path entries. create_zip_export env project = Inr (path, entries)
       \<and> map_of entries (''emails/email_'' @ str_nat (i + 1) @ ''.txt'')
           = Some ([CHR 0x0A] @ ''Subject: '' @ py_str subject @ [CHR 0x0A, CHR 0x0A]
                   @ py_str body @ [CHR 0x0A] @ replicate 20 (CHR '' ''))"
proof -
  from ready e obtain u1 fd u2 where m: "makedirs env = Inr u1"
    and f: "load_blob env (project_funnel_data project) = Inr fd"
    and z: "open_zip env (exports_dir env @ ''/'' @ str_int (project_id project) @ ''.zip'') = Inr u2"
    and fok: "funnel_ok fd" and eok: "emails_ok es"
    by (elim export_ready_cases) simp
  have t: "truthy es" using i by (cases es) (auto simp: items_of_def)
  define nm where "nm = (\<lambda>j. ''emails/email_'' @ str_nat (j + 1) @ ''.txt'')"
  define c where "c = (\<lambda>j email. email_content
                 (py_str (projr (py_get email ''subject'' (JStr (''Email '' @ str_nat (j + 1))))))
                 (py_str (projr (py_get email ''body'' (JStr ''Email content'')))))"
  have inj: "\<And>a b. nm a = nm b \<Longrightarrow> a = b" unfolding nm_def by (rule email_name_inj)
  have "map_of (map (\<lambda>(j, x). (nm j, c j x)) (enumerate 0 (items_of es ''emails''))) (nm (0 + i))
          = Some (c (0 + i) (items_of es ''emails'' ! i))"
    by (rule map_of_enumerate[OF inj i])
  then have l: "map_of (map (\<lambda>(j, email).
              (''emails/email_'' @ str_nat (j + 1) @ ''.txt'',
               email_content
                 (py_str (projr (py_get email ''subject'' (JStr (''Email '' @ str_nat (j + 1))))))
                 (py_str (projr (py_get email ''body'' (JStr ''Email content''))))))
              (enumerate 0 (items_of es ''emails'')))
            (''emails/email_'' @ str_nat (i + 1) @ ''.txt'')
          = Some ([CHR 0x0A] @ ''Subject: '' @ py_str subject @ [CHR 0x0A, CHR 0x0A]
                   @ py_str body @ [CHR 0x0A] @ replicate 20 (CHR '' ''))"
    unfolding add_0 nm_def c_def s b sum.sel email_content_text .
  show ?thesis
  proof (rule archive_lookup[OF create_zip_export_ready[OF m f e z fok eok] t])
    show "map_of [(''index.html'', projr (create_html_page (render_template env)
                                  (projr (py_get fd ''main_page'' (JDict []))) ''main'')),
        (''style.css'', generate_css),
        (''funnel.js'', projr (generate_js fd))] (''emails/email_'' @ str_nat (i + 1) @ ''.txt'') = None"
      by simp
    show "map_of (map (\<lambda>(i, page). (''upsell'' @ ''_'' @ str_nat (i + 1) @ ''.html'',
                projr (create_html_page (render_template env) page ''upsell'')))
           (enumerate 0 (items_of fd ''upsells''))) (''emails/email_'' @ str_nat (i + 1) @ ''.txt'') = None"
      by (rule map_of_none) (auto simp: split_def)
    show "map_of (map (\<lambda>(i, page). (''downsell'' @ ''_'' @ str_nat (i + 1) @ ''.html'',
                projr (create_html_page (render_template env) page ''downsell'')))
           (enumerate 0 (items_of fd ''downsells''))) (''emails/email_'' @ str_nat (i + 1) @ ''.txt'') = None"
      by (rule map_of_none) (auto simp: split_def)
    show "map_of [(''thank_you.html'', projr (create_thank_you_page fd))]
            (''emails/email_'' @ str_nat (i + 1) @ ''.txt'') = None"
      by simp
    show "map_of (map (\<lambda>(j, email).
              (''emails/email_'' @ str_nat (j + 1) @ ''.txt'',
               email_content
                 (py_str (projr (py_get email ''subject'' (JStr (''Email '' @ str_nat (j + 1))))))
                 (py_str (projr (py_get email ''body'' (JStr ''Email content''))))))
              (enumerate 0 (items_of es ''emails'')))
            (''emails/email_'' @ str_nat (i + 1) @ ''.txt'')
          = Some ([CHR 0x0A] @ ''Subject: '' @ py_str subject @ [CHR 0x0A, CHR 0x0A]
                   @ py_str body @ [CHR 0x0A] @ replicate 20 (CHR '' ''))"
      by (rule l)
  qed
qed

theorem export_email_entry_witness:
  "export_ready demo_env demo_project
   \<and> load_blob demo_env (project_email_sequence demo_project) = Inr demo_emails
   \<and> 0 < length (items_of demo_emails ''emails'')
   \<and> py_get (items_of demo_emails ''emails'' ! 0) ''subject'' (JStr (''Email '' @ str_nat (0 + 1)))
        = Inr (JStr ''Hi'')
   \<and> py_get (items_of demo_emails ''emails'' ! 0) ''body'' (JStr ''Email content'') = Inr (JStr ''Yo'')
   \<and> (\<exists>path entries. create_zip_export demo_env demo_project = Inr (path, entries)
       \<and> map_of entries (''emails/email_'' @ str_nat (0 + 1) @ ''.txt'')
           = Some ([CHR 0x0A] @ ''Subject: '' @ py_str (JStr ''Hi'') @ [CHR 0x0A, CHR 0x0A]
                   @ py_str (JStr ''Yo'') @ [CHR 0x0A] @ replicate 20 (CHR '' '')))"
proof -
  have e: "load_blob demo_env (project_email_sequence demo_project) = Inr demo_emails"
    by (simp add: demo_project_def demo_loads)
  have i: "0 < length (items_of demo_emails ''emails'')" by (simp add: demo_items)
  have s: "py_get (items_of demo_emails ''emails'' ! 0) ''subject''
             (JStr (''Email '' @ str_nat (0 + 1))) = Inr (JStr ''Hi'')"
    and b: "py_get (items_of demo_emails ''emails'' ! 0) ''body'' (JStr ''Email content'')
             = Inr (JStr ''Yo'')"
    by (simp_all add: demo_items)
  show ?thesis
    by (intro conjI demo_ready e i s b export_email_entry[OF demo_ready e i s b])
qed

text \<open>
  On the example project the first email entry is not the bare text
  \<open>Subject: Hi\<close>, two newlines, \<open>Yo\<close>: it starts with a newline and ends with a newline
  and twenty spaces.
\<close>

theorem export_email_entry_counterexample:
  "\<exists>path entries. create_zip_export demo_env demo_project = Inr (path, entries)
     \<and> map_of entries ''emails/email_1.txt''
         = Some ([CHR 0x0A] @ ''Subject: Hi'' @ [CHR 0x0A, CHR 0x0A] @ ''Yo'' @ [CHR 0x0A]
                 @ replicate 20 (CHR '' ''))
     \<and> map_of entries ''emails/email_1.txt'' \<noteq> Some (''Subject: Hi'' @ [CHR 0x0A, CHR 0x0A] @ ''Yo'')"
proof -
  have f: "load_blob demo_env (project_funnel_data demo_project) = Inr demo_funnel"
    and e: "load_blob demo_env (project_email_sequence demo_project) = Inr demo_emails"
    by (simp_all add: demo_project_def demo_loads)
  have m: "makedirs demo_env = Inr ()"
    and z: "open_zip demo_env
              (exports_dir demo_env @ ''/'' @ str_int (project_id demo_project) @ ''.zip'') = Inr ()"
    by (simp_all add: demo_env_def)
  have fok: "funnel_ok demo_funnel" and eok: "emails_ok demo_emails"
    by (simp_all add: demo_funnel_def demo_emails_def entry_ok_def)
  have t: "truthy demo_emails" by (simp add: demo_emails_def)
  have "\<exists>path entries. create_zip_export demo_env demo_project = Inr (path, entries)
     \<and> map_of entries ''emails/email_1.txt''
         = Some ([CHR 0x0A] @ ''Subject: Hi'' @ [CHR 0x0A, CHR 0x0A] @ ''Yo'' @ [CHR 0x0A]
                 @ replicate 20 (CHR '' ''))"
  proof (rule archive_lookup[OF create_zip_export_ready[OF m f e z fok eok] t])
    show "map_of [(''index.html'', projr (create_html_page (render_template demo_env)
                                  (projr (py_get demo_funnel ''main_page'' (JDict []))) ''main'')),
        (''style.css'', generate_css),
        (''funnel.js'', projr (generate_js demo_funnel))] ''emails/email_1.txt'' = None"
      by simp
    show "map_of (map (\<lambda>(i, page). (''upsell'' @ ''_'' @ str_nat (i + 1) @ ''.html'',
                projr (create_html_page (render_template demo_env) page ''upsell'')))
           (enumerate 0 (items_of demo_funnel ''upsells''))) ''emails/email_1.txt'' = None"
      by (rule map_of_none) (auto simp: split_def)
    show "map_of (map (\<lambda>(i, page). (''downsell'' @ ''_'' @ str_nat (i + 1) @ ''.html'',
                projr (create_html_page (render_template demo_env) page ''downsell'')))
           (enumerate 0 (items_of demo_funnel ''downsells''))) ''emails/email_1.txt'' = None"
      by (rule map_of_none) (auto simp: split_def)
    show "map_of [(''thank_you.html'', projr (create_thank_you_page demo_funnel))]
            ''emails/email_1.txt'' = None"
      by simp
    show "map_of (map (\<lambda>(j, email).
              (''emails/email_'' @ str_nat (j + 1) @ ''.txt'',
               email_content
                 (py_str (projr (py_get email ''subject'' (JStr (''Email '' @ str_nat (j + 1))))))
                 (py_str (projr (py_get email ''body'' (JStr ''Email content''))))))
              (enumerate 0 (items_of demo_emails ''emails'')))
            ''emails/email_1.txt''
          = Some ([CHR 0x0A] @ ''Subject: Hi'' @ [CHR 0x0A, CHR 0x0A] @ ''Yo'' @ [CHR 0x0A]
                 @ replicate 20 (CHR '' ''))"
      by (simp add: demo_items str_nat_small email_content_text)
  qed
  then show ?thesis by auto
qed

subsection \<open>The exporter and its writes\<close>

lemma write_entry_Inr_iff:
  "write_entry w n c = Inr y \<longleftrightarrow> y = (n, c) \<and> w n c = Inr ()"
  by (cases "w n c") (auto simp: write_entry_def)

lemma written_Inr_iff:
  "bind_exn m (\<lambda>(n, c). write_entry w n c) = Inr y
     \<longleftrightarrow> m = Inr y \<and> w (fst y) (snd y) = Inr ()"
  by (cases m) (auto simp: write_entry_Inr_iff split_def)

lemma sequence_exn_Inr_Cons:
  "sequence_exn (m # ms) = Inr ys
     \<longleftrightarrow> (\<exists>x xs. m = Inr x \<and> sequence_exn ms = Inr xs \<and> ys = x # xs)"
  by (auto split: sum.splits)

lemma sequence_written:
  "sequence_exn (map (\<lambda>x. bind_exn (f x) (\<lambda>(n, c). write_entry w n c)) xs) = Inr ys
     \<longleftrightarrow> sequence_exn (map f xs) = Inr ys \<and> list_all (\<lambda>y. w (fst y) (snd y) = Inr ()) ys"
proof (induction xs arbitrary: ys)
  case Nil
  show ?case by auto
next
  case (Cons x xs)
  show ?case
    unfolding list.map sequence_exn_Inr_Cons Cons.IH written_Inr_iff by auto
qed

lemma sequence_written_enumerate:
  "sequence_exn (map (\<lambda>(i, x). bind_exn (f i x) (\<lambda>(n, c). write_entry w n c)) (enumerate k xs)) = Inr ys
     \<longleftrightarrow> sequence_exn (map (\<lambda>(i, x). f i x) (enumerate k xs)) = Inr ys
          \<and> list_all (\<lambda>y. w (fst y) (snd y) = Inr ()) ys"
  using sequence_written[of "\<lambda>p. f (fst p) (snd p)" w "enumerate k xs" ys]
  by (simp add: split_def)

lemma email_files_writing_Inr_iff:
  "email_files_writing w es = Inr fs
     \<longleftrightarrow> email_files es = Inr fs \<and> list_all (\<lambda>y. w (fst y) (snd y) = Inr ()) fs"
  unfolding email_files_writing_def email_files_def
  by (auto simp: bind_exn_Inr_iff sequence_written_enumerate write_entry_Inr_iff)

lemma email_entries_writing_Inr_iff:
  "(if t then email_files_writing w es else Inr []) = Inr fs
     \<longleftrightarrow> (if t then email_files es else Inr []) = Inr fs
          \<and> list_all (\<lambda>y. w (fst y) (snd y) = Inr ()) fs"
  by (auto simp: email_files_writing_Inr_iff)

lemma if_Inl_Inr_iff: "(if c then Inl e else m) = Inr r \<longleftrightarrow> \<not> c \<and> m = Inr r"
  by simp

lemma create_zip_export_writing_Inr_iff:
  "create_zip_export_writing w env project = Inr (path, entries)
     \<longleftrightarrow> create_zip_export env project = Inr (path, entries)
          \<and> list_all (\<lambda>y. w (fst y) (snd y) = Inr ()) entries"
  unfolding create_zip_export_writing_def create_zip_export_def Let_def
  apply (simp add: bind_exn_Inr_iff sequence_written_enumerate write_entry_Inr_iff
        email_entries_writing_Inr_iff if_Inl_Inr_iff split del: if_split)
  apply (rule iffI)
   apply (clarsimp split del: if_split)
  apply (clarsimp split del: if_split)
  done

lemma export_no_funnel_data:
  assumes "makedirs env = Inr u"
    and "load_blob env (project_funnel_data project) = Inr fd"
    and "load_blob env (project_email_sequence project) = Inr es"
    and "\<not> truthy fd"
  shows "create_zip_export_writing w env project
           = Inl (ValueError ''No funnel data available for export'')"
  unfolding create_zip_export_writing_def Let_def by (simp add: assms)

lemma create_zip_export_returns_only_if:
  assumes "create_zip_export env project = Inr (path, entries)"
  shows "(\<exists>u. makedirs env = Inr u)
       \<and> (\<exists>fd. load_blob env (project_funnel_data project) = Inr fd \<and> truthy fd \<and> is_dict fd)
       \<and> (\<exists>es. load_blob env (project_email_sequence project) = Inr es
              \<and> (\<exists>files. (if truthy es then email_files es else Inr []) = Inr files))
       \<and> (\<exists>u. open_zip env path = Inr u)"
  using assms unfolding create_zip_export_def Let_def
  by (simp add: bind_exn_Inr_iff if_Inl_Inr_iff split del: if_split)
     (use py_get_Inr_is_dict in \<open>clarsimp split del: if_split\<close>)

lemma create_html_page_rendered:
  "r (t @ ''.html'') page = Inr html \<Longrightarrow> create_html_page r page t = Inr html"
  by (simp add: create_html_page_def)

lemma create_html_page_absorbs:
  assumes "r (t @ ''.html'') page = Inl e"
    and "py_get page ''headline'' (JStr ''Funnel Page'') = Inr h"
    and "py_get page ''description'' (JStr '''') = Inr d"
    and "py_get page ''cta_text'' (JStr ''Continue'') = Inr c"
  shows "create_html_page r page t
           = Inr (fallback_html (py_str h) (py_str h) (py_str d) (py_str c))"
  by (simp add: create_html_page_def assms)

lemma page_name_inj:
  "t @ ''_'' @ str_nat (a + 1) @ ''.html'' = t @ ''_'' @ str_nat (b + 1) @ ''.html'' \<Longrightarrow> a = b"
  using str_nat_inj[of "a + 1" "b + 1"] by simp

lemma map_of_append_here: "map_of a k = Some v \<Longrightarrow> map_of (a @ rest) k = Some v"
  by (simp add: map_add_def)

lemma map_of_append_skip: "map_of a k = None \<Longrightarrow> map_of (a @ rest) k = map_of rest k"
  by (simp add: map_add_def)

lemma enumerate_names:
  "map fst (map (\<lambda>(i, x). (nm i, c i x)) (enumerate 0 xs)) = map nm [0..<length xs]"
proof -
  have "map fst (map (\<lambda>(i, x). (nm i, c i x)) (enumerate 0 xs))
          = map nm (map fst (enumerate 0 xs))"
    by (simp only: map_map comp_def split_def fst_conv)
  then show ?thesis by simp
qed

lemma pages_lookup:
  assumes "i < length pages"
  shows "map_of (map (\<lambda>(j, page). (t @ ''_'' @ str_nat (j + 1) @ ''.html'', c j page))
                  (enumerate 0 pages))
           (t @ ''_'' @ str_nat (i + 1) @ ''.html'') = Some (c i (pages ! i))"
proof -
  define nm where "nm = (\<lambda>j. t @ ''_'' @ str_nat (j + 1) @ ''.html'')"
  have inj: "\<And>a b. nm a = nm b \<Longrightarrow> a = b" unfolding nm_def by (rule page_name_inj)
  have "map_of (map (\<lambda>(j, x). (nm j, c j x)) (enumerate 0 pages)) (nm (0 + i))
          = Some (c (0 + i) (pages ! i))"
    by (rule map_of_enumerate[OF inj assms])
  then show ?thesis unfolding nm_def add_0 .
qed

lemma export_complete:
  assumes m: "makedirs env = Inr u1"
    and f: "load_blob env (project_funnel_data project) = Inr fd"
    and e: "load_blob env (project_email_sequence project) = Inr es"
    and z: "open_zip env (exports_dir env @ ''/'' @ str_int (project_id project) @ ''.zip'') = Inr u2"
    and fok: "funnel_ok fd" and eok: "emails_ok es"
    and acc: "\<forall>name content. w name content = Inr ()"
  shows "\<exists>entries.
      create_zip_export_writing w env project
        = Inr (exports_dir env @ ''/'' @ str_int (project_id project) @ ''.zip'', entries)
    \<and> map fst entries =
        [''index.html'', ''style.css'', ''funnel.js'']
        @ map (\<lambda>i. ''upsell_'' @ str_nat (i + 1) @ ''.html'') [0..<length (items_of fd ''upsells'')]
        @ map (\<lambda>i. ''downsell_'' @ str_nat (i + 1) @ ''.html'')
            [0..<length (items_of fd ''downsells'')]
        @ [''thank_you.html'']
        @ (if truthy es
           then map (\<lambda>i. ''emails/email_'' @ str_nat (i + 1) @ ''.txt'')
                  [0..<length (items_of es ''emails'')] @ [''emails/README.txt'']
           else [])
        @ [''README.txt'']
    \<and> (\<exists>main_page html. py_get fd ''main_page'' (JDict []) = Inr main_page
          \<and> create_html_page (render_template env) main_page ''main'' = Inr html
          \<and> map_of entries ''index.html'' = Some html)
    \<and> (\<forall>i<length (items_of fd ''upsells''). \<exists>html.
          create_html_page (render_template env) (items_of fd ''upsells'' ! i) ''upsell'' = Inr html
          \<and> map_of entries (''upsell_'' @ str_nat (i + 1) @ ''.html'') = Some html)
    \<and> (\<forall>i<length (items_of fd ''downsells''). \<exists>html.
          create_html_page (render_template env) (items_of fd ''downsells'' ! i) ''downsell''
            = Inr html
          \<and> map_of entries (''downsell_'' @ str_nat (i + 1) @ ''.html'') = Some html)"
proof -
  from fok obtain kvs where fd: "fd = JDict kvs"
    and mp: "entry_ok is_dict kvs ''main_page''" and us: "entry_ok is_object_list kvs ''upsells''"
    and ds: "entry_ok is_object_list kvs ''downsells''"
    by (cases fd) auto
  define r where "r = render_template env"
  define A where "A = [(''index.html'', projr (create_html_page r
                                  (projr (py_get fd ''main_page'' (JDict []))) ''main'')),
        (''style.css'', generate_css),
        (''funnel.js'', projr (generate_js fd))]"
  define U where "U = map (\<lambda>(i, page). (''upsell'' @ ''_'' @ str_nat (i + 1) @ ''.html'',
                projr (create_html_page r page ''upsell'')))
           (enumerate 0 (items_of fd ''upsells''))"
  define D where "D = map (\<lambda>(i, page). (''downsell'' @ ''_'' @ str_nat (i + 1) @ ''.html'',
                projr (create_html_page r page ''downsell'')))
           (enumerate 0 (items_of fd ''downsells''))"
  define T where "T = [(''thank_you.html'', projr (create_thank_you_page fd))]"
  define E where "E = (if truthy es then
            map (\<lambda>(i, email).
              (''emails/email_'' @ str_nat (i + 1) @ ''.txt'',
               email_content
                 (py_str (projr (py_get email ''subject'' (JStr (''Email '' @ str_nat (i + 1))))))
                 (py_str (projr (py_get email ''body'' (JStr ''Email content''))))))
              (enumerate 0 (items_of es ''emails''))
            @ [(''emails/README.txt'', projr (email_docs es))]
          else [])"
  define R where "R = [(''README.txt'', projr (generate_documentation env project fd))]"
  define zip where "zip = exports_dir env @ ''/'' @ str_int (project_id project) @ ''.zip''"
  have plain: "create_zip_export env project = Inr (zip, A @ U @ D @ T @ E @ R)"
    unfolding A_def U_def D_def T_def E_def R_def zip_def r_def
    by (rule create_zip_export_ready[OF m f e z fok eok])
  have "list_all (\<lambda>y. w (fst y) (snd y) = Inr ()) (A @ U @ D @ T @ E @ R)"
    using acc by (simp add: list_all_iff)
  with plain have x: "create_zip_export_writing w env project = Inr (zip, A @ U @ D @ T @ E @ R)"
    by (simp only: create_zip_export_writing_Inr_iff simp_thms)
  have names: "map fst (A @ U @ D @ T @ E @ R) =
        [''index.html'', ''style.css'', ''funnel.js'']
        @ map (\<lambda>i. ''upsell_'' @ str_nat (i + 1) @ ''.html'') [0..<length (items_of fd ''upsells'')]
        @ map (\<lambda>i. ''downsell_'' @ str_nat (i + 1) @ ''.html'')
            [0..<length (items_of fd ''downsells'')]
        @ [''thank_you.html'']
        @ (if truthy es
           then map (\<lambda>i. ''emails/email_'' @ str_nat (i + 1) @ ''.txt'')
                  [0..<length (items_of es ''emails'')] @ [''emails/README.txt'']
           else [])
        @ [''README.txt'']"
    unfolding A_def U_def D_def T_def E_def R_def
    by (simp add: enumerate_names del: map_map)
  have mpd: "is_dict (projr (py_get fd ''main_page'' (JDict [])))"
    unfolding fd by (rule dict_entry[OF mp])
  have g: "py_get fd ''main_page'' (JDict []) = Inr (projr (py_get fd ''main_page'' (JDict [])))"
    by (simp add: fd)
  have main: "\<exists>main_page html. py_get fd ''main_page'' (JDict []) = Inr main_page
          \<and> create_html_page r main_page ''main'' = Inr html
          \<and> map_of (A @ U @ D @ T @ E @ R) ''index.html'' = Some html"
    using g create_html_page_dict[OF mpd, of r "''main''"]
    by (intro exI conjI) (assumption, assumption, simp add: A_def)
  have ud: "list_all is_dict (items_of fd ''upsells'')"
    and dd: "list_all is_dict (items_of fd ''downsells'')"
    unfolding fd by (rule items_of_entry(2)[OF us], rule items_of_entry(2)[OF ds])
  have ups: "\<exists>html. create_html_page r (items_of fd ''upsells'' ! i) ''upsell'' = Inr html
          \<and> map_of (A @ U @ D @ T @ E @ R) (''upsell_'' @ str_nat (i + 1) @ ''.html'') = Some html"
    if i: "i < length (items_of fd ''upsells'')" for i
  proof -
    have d: "is_dict (items_of fd ''upsells'' ! i)" using ud i by (simp add: list_all_length)
    have a: "map_of A (''upsell'' @ ''_'' @ str_nat (i + 1) @ ''.html'') = None"
      by (simp add: A_def)
    have u: "map_of U (''upsell'' @ ''_'' @ str_nat (i + 1) @ ''.html'')
               = Some (projr (create_html_page r (items_of fd ''upsells'' ! i) ''upsell''))"
      unfolding U_def by (rule pages_lookup[OF i])
    have "map_of (A @ U @ D @ T @ E @ R) (''upsell'' @ ''_'' @ str_nat (i + 1) @ ''.html'')
            = Some (projr (create_html_page r (items_of fd ''upsells'' ! i) ''upsell''))"
      by (simp only: map_of_append_skip[OF a] map_of_append_here[OF u])
    with create_html_page_dict[OF d, of r "''upsell''"] show ?thesis by simp
  qed
  have downs: "\<exists>html. create_html_page r (items_of fd ''downsells'' ! i) ''downsell'' = Inr html
          \<and> map_of (A @ U @ D @ T @ E @ R) (''downsell_'' @ str_nat (i + 1) @ ''.html'') = Some html"
    if i: "i < length (items_of fd ''downsells'')" for i
  proof -
    have d: "is_dict (items_of fd ''downsells'' ! i)" using dd i by (simp add: list_all_length)
    have a: "map_of A (''downsell'' @ ''_'' @ str_nat (i + 1) @ ''.html'') = None"
      by (simp add: A_def)
    have u: "map_of U (''downsell'' @ ''_'' @ str_nat (i + 1) @ ''.html'') = None"
      unfolding U_def by (rule map_of_none) (auto simp: split_def)
    have v: "map_of D (''downsell'' @ ''_'' @ str_nat (i + 1) @ ''.html'')
               = Some (projr (create_html_page r (items_of fd ''downsells'' ! i) ''downsell''))"
      unfolding D_def by (rule pages_lookup[OF i])
    have "map_of (A @ U @ D @ T @ E @ R) (''downsell'' @ ''_'' @ str_nat (i + 1) @ ''.html'')
            = Some (projr (create_html_page r (items_of fd ''downsells'' ! i) ''downsell''))"
      by (simp only: map_of_append_skip[OF a] map_of_append_skip[OF u] map_of_append_here[OF v])
    with create_html_page_dict[OF d, of r "''downsell''"] show ?thesis by simp
  qed
  from x names main ups downs show ?thesis
    unfolding zip_def r_def by blast
qed

text \<open>
  Claim C2. Four facts about \<open>create_zip_export\<close> with its writes. When the directory is
  made and both blobs parse, a funnel value that is empty raises the \<open>ValueError\<close> of the
  function. A well-shaped project whose writes are all taken is exported whatever the
  template engine does: the path is returned, the names of the archive are the complete
  list, and every page entry holds what \<open>create_html_page\<close> returns. A page whose template
  raises is the inline page. And the function returns only if nothing else has raised: the
  directory was made, both blobs parsed, the funnel value is a non-empty object, the
  emails were rendered, the archive was opened and every entry was taken by \<open>writestr\<close>.
\<close>

theorem export_raises_or_returns:
  "(\<forall>u fd es.
      makedirs env = Inr u
      \<and> load_blob env (project_funnel_data project) = Inr fd
      \<and> load_blob env (project_email_sequence project) = Inr es
      \<and> \<not> truthy fd
      \<longrightarrow> create_zip_export_writing writestr env project
            = Inl (ValueError ''No funnel data available for export''))
   \<and> (\<forall>fd es r.
      export_ready env project
      \<and> load_blob env (project_funnel_data project) = Inr fd
      \<and> load_blob env (project_email_sequence project) = Inr es
      \<and> (\<forall>name content. writestr name content = Inr ())
      \<longrightarrow> (\<exists>entries.
            create_zip_export_writing writestr (env\<lparr>render_template := r\<rparr>) project
              = Inr (exports_dir env @ ''/'' @ str_int (project_id project) @ ''.zip'', entries)
          \<and> map fst entries =
              [''index.html'', ''style.css'', ''funnel.js'']
              @ map (\<lambda>i. ''upsell_'' @ str_nat (i + 1) @ ''.html'')
                  [0..<length (items_of fd ''upsells'')]
              @ map (\<lambda>i. ''downsell_'' @ str_nat (i + 1) @ ''.html'')
                  [0..<length (items_of fd ''downsells'')]
              @ [''thank_you.html'']
              @ (if truthy es
                 then map (\<lambda>i. ''emails/email_'' @ str_nat (i + 1) @ ''.txt'')
                        [0..<length (items_of es ''emails'')] @ [''emails/README.txt'']
                 else [])
              @ [''README.txt'']
          \<and> (\<exists>main_page html. py_get fd ''main_page'' (JDict []) = Inr main_page
                \<and> create_html_page r main_page ''main'' = Inr html
                \<and> map_of entries ''index.html'' = Some html)
          \<and> (\<forall>i<length (items_of fd ''upsells''). \<exists>html.
                create_html_page r (items_of fd ''upsells'' ! i) ''upsell'' = Inr html
                \<and> map_of entries (''upsell_'' @ str_nat (i + 1) @ ''.html'') = Some html)
          \<and> (\<forall>i<length (items_of fd ''downsells''). \<exists>html.
                create_html_page r (items_of fd ''downsells'' ! i) ''downsell'' = Inr html
                \<and> map_of entries (''downsell_'' @ str_nat (i + 1) @ ''.html'') = Some html)))
   \<and> (\<forall>r t page e h d c.
      r (t @ ''.html'') page = Inl e
      \<and> py_get page ''headline'' (JStr ''Funnel Page'') = Inr h
      \<and> py_get page ''description'' (JStr '''') = Inr d
      \<and> py_get page ''cta_text'' (JStr ''Continue'') = Inr c
      \<longrightarrow> create_html_page r page t
            = Inr (fallback_html (py_str h) (py_str h) (py_str d) (py_str c)))
   \<and> (\<forall>path entries.
      create_zip_export_writing writestr env project = Inr (path, entries)
      \<longrightarrow> (\<exists>u. makedirs env = Inr u)
          \<and> (\<exists>fd. load_blob env (project_funnel_data project) = Inr fd \<and> truthy fd \<and> is_dict fd)
          \<and> (\<exists>es. load_blob env (project_email_sequence project) = Inr es
                 \<and> (\<exists>files. (if truthy es then email_files es else Inr []) = Inr files))
          \<and> (\<exists>u. open_zip env path = Inr u)
          \<and> list_all (\<lambda>entry. writestr (fst entry) (snd entry) = Inr ()) entries
          \<and> create_zip_export env project = Inr (path, entries))"
proof (intro conjI)
  show "\<forall>u fd es.
      makedirs env = Inr u
      \<and> load_blob env (project_funnel_data project) = Inr fd
      \<and> load_blob env (project_email_sequence project) = Inr es
      \<and> \<not> truthy fd
      \<longrightarrow> create_zip_export_writing writestr env project
            = Inl (ValueError ''No funnel data available for export'')"
    by (intro allI impI, elim conjE) (rule export_no_funnel_data)
next
  show "\<forall>r t page e h d c.
      r (t @ ''.html'') page = Inl e
      \<and> py_get page ''headline'' (JStr ''Funnel Page'') = Inr h
      \<and> py_get page ''description'' (JStr '''') = Inr d
      \<and> py_get page ''cta_text'' (JStr ''Continue'') = Inr c
      \<longrightarrow> create_html_page r page t
            = Inr (fallback_html (py_str h) (py_str h) (py_str d) (py_str c))"
    by (intro allI impI, elim conjE) (rule create_html_page_absorbs)
next
  show "\<forall>path entries.
      create_zip_export_writing writestr env project = Inr (path, entries)
      \<longrightarrow> (\<exists>u. makedirs env = Inr u)
          \<and> (\<exists>fd. load_blob env (project_funnel_data project) = Inr fd \<and> truthy fd \<and> is_dict fd)
          \<and> (\<exists>es. load_blob env (project_email_sequence project) = Inr es
                 \<and> (\<exists>files. (if truthy es then email_files es else Inr []) = Inr files))
          \<and> (\<exists>u. open_zip env path = Inr u)
          \<and> list_all (\<lambda>entry. writestr (fst entry) (snd entry) = Inr ()) entries
          \<and> create_zip_export env project = Inr (path, entries)"
  proof (intro allI impI)
    fix path entries
    assume "create_zip_export_writing writestr env project = Inr (path, entries)"
    then have p: "create_zip_export env project = Inr (path, entries)"
      and a: "list_all (\<lambda>entry. writestr (fst entry) (snd entry) = Inr ()) entries"
      by (simp_all only: create_zip_export_writing_Inr_iff)
    from create_zip_export_returns_only_if[OF p] p a
    show "(\<exists>u. makedirs env = Inr u)
          \<and> (\<exists>fd. load_blob env (project_funnel_data project) = Inr fd \<and> truthy fd \<and> is_dict fd)
          \<and> (\<exists>es. load_blob env (project_email_sequence project) = Inr es
                 \<and> (\<exists>files. (if truthy es then email_files es else Inr []) = Inr files))
          \<and> (\<exists>u. open_zip env path = Inr u)
          \<and> list_all (\<lambda>entry. writestr (fst entry) (snd entry) = Inr ()) entries
          \<and> create_zip_export env project = Inr (path, entries)"
      by (intro conjI) (elim conjE, assumption)+
  qed
next
  show "\<forall>fd es r.
      export_ready env project
      \<and> load_blob env (project_funnel_data project) = Inr fd
      \<and> load_blob env (project_email_sequence project) = Inr es
      \<and> (\<forall>name content. writestr name content = Inr ())
      \<longrightarrow> (\<exists>entries.
            create_zip_export_writing writestr (env\<lparr>render_template := r\<rparr>) project
              = Inr (exports_dir env @ ''/'' @ str_int (project_id project) @ ''.zip'', entries)
          \<and> map fst entries =
              [''index.html'', ''style.css'', ''funnel.js'']
              @ map (\<lambda>i. ''upsell_'' @ str_nat (i + 1) @ ''.html'')
                  [0..<length (items_of fd ''upsells'')]
              @ map (\<lambda>i. ''downsell_'' @ str_nat (i + 1) @ ''.html'')
                  [0..<length (items_of fd ''downsells'')]
              @ [''thank_you.html'']
              @ (if truthy es
                 then map (\<lambda>i. ''emails/email_'' @ str_nat (i + 1) @ ''.txt'')
                        [0..<length (items_of es ''emails'')] @ [''emails/README.txt'']
                 else [])
              @ [''README.txt'']
          \<and> (\<exists>main_page html. py_get fd ''main_page'' (JDict []) = Inr main_page
                \<and> create_html_page r main_page ''main'' = Inr html
                \<and> map_of entries ''index.html'' = Some html)
          \<and> (\<forall>i<length (items_of fd ''upsells''). \<exists>html.
                create_html_page r (items_of fd ''upsells'' ! i) ''upsell'' = Inr html
                \<and> map_of entries (''upsell_'' @ str_nat (i + 1) @ ''.html'') = Some html)
          \<and> (\<forall>i<length (items_of fd ''downsells''). \<exists>html.
                create_html_page r (items_of fd ''downsells'' ! i) ''downsell'' = Inr html
                \<and> map_of entries (''downsell_'' @ str_nat (i + 1) @ ''.html'') = Some html))"
  proof (intro allI impI, elim conjE)
    fix fd es r
    assume ready: "export_ready env project"
      and f: "load_blob env (project_funnel_data project) = Inr fd"
      and e: "load_blob env (project_email_sequence project) = Inr es"
      and acc: "\<forall>name content. writestr name content = Inr ()"
    from ready f e obtain u1 u2 where m: "makedirs env = Inr u1"
      and z: "open_zip env (exports_dir env @ ''/'' @ str_int (project_id project) @ ''.zip'') = Inr u2"
      and fok: "funnel_ok fd" and eok: "emails_ok es"
      by (elim export_ready_cases) simp
    define env' where "env' = env\<lparr>render_template := r\<rparr>"
    have s: "exports_dir env' = exports_dir env" "render_template env' = r"
      by (simp_all add: env'_def)
    have m': "makedirs env' = Inr u1" using m by (simp add: env'_def)
    have f': "load_blob env' (project_funnel_data project) = Inr fd"
      and e': "load_blob env' (project_email_sequence project) = Inr es"
      using f e by (simp_all add: env'_def load_blob_render)
    have z': "open_zip env' (exports_dir env' @ ''/'' @ str_int (project_id project) @ ''.zip'')
                = Inr u2"
      using z by (simp add: env'_def)
    show "\<exists>entries.
            create_zip_export_writing writestr (env\<lparr>render_template := r\<rparr>) project
              = Inr (exports_dir env @ ''/'' @ str_int (project_id project) @ ''.zip'', entries)
          \<and> map fst entries =
              [''index.html'', ''style.css'', ''funnel.js'']
              @ map (\<lambda>i. ''upsell_'' @ str_nat (i + 1) @ ''.html'')
                  [0..<length (items_of fd ''upsells'')]
              @ map (\<lambda>i. ''downsell_'' @ str_nat (i + 1) @ ''.html'')
                  [0..<length (items_of fd ''downsells'')]
              @ [''thank_you.html'']
              @ (if truthy es
                 then map (\<lambda>i. ''emails/email_'' @ str_nat (i + 1) @ ''.txt'')
                        [0..<length (items_of es ''emails'')] @ [''emails/README.txt'']
                 else [])
              @ [''README.txt'']
          \<and> (\<exists>main_page html. py_get fd ''main_page'' (JDict []) = Inr main_page
                \<and> create_html_page r main_page ''main'' = Inr html
                \<and> map_of entries ''index.html'' = Some html)
          \<and> (\<forall>i<length (items_of fd ''upsells''). \<exists>html.
                create_html_page r (items_of fd ''upsells'' ! i) ''upsell'' = Inr html
                \<and> map_of entries (''upsell_'' @ str_nat (i + 1) @ ''.html'') = Some html)
          \<and> (\<forall>i<length (items_of fd ''downsells''). \<exists>html.
                create_html_page r (items_of fd ''downsells'' ! i) ''downsell'' = Inr html
                \<and> map_of entries (''downsell_'' @ str_nat (i + 1) @ ''.html'') = Some html)"
      using export_complete[OF m' f' e' z' fok eok acc, unfolded s, unfolded env'_def] .
  qed
qed

lemma demo_env_fields:
  "makedirs demo_env = Inr ()"
  "open_zip demo_env = (\<lambda>path. Inr ())"
  "render_template demo_env = (\<lambda>name page. Inl (ExternalError name))"
  by (simp_all add: demo_env_def)

lemma demo_project_loads:
  "load_blob demo_env (project_funnel_data demo_project) = Inr demo_funnel"
  "load_blob demo_env (project_email_sequence demo_project) = Inr demo_emails"
  by (simp_all add: demo_project_def demo_loads)

lemma demo_shapes: "funnel_ok demo_funnel" "emails_ok demo_emails" "truthy demo_emails"
  "truthy demo_funnel"
  by (simp_all add: demo_funnel_def demo_emails_def entry_ok_def)

text \<open>
  The four facts on the example project: a stored \<open>{}\<close> raises the \<open>ValueError\<close>; with a
  template engine that always raises, the thirteen entries are written and \<open>index.html\<close>
  is the inline page; an upsell page with a headline and a button text becomes the inline
  page with them; and the export that returns has made the directory, parsed the funnel
  data, opened the archive and written every entry.
\<close>

theorem export_raises_or_returns_witness:
  "(makedirs (demo_env\<lparr>json_loads := \<lambda>s. Inr (JDict [])\<rparr>) = Inr ()
    \<and> load_blob (demo_env\<lparr>json_loads := \<lambda>s. Inr (JDict [])\<rparr>)
          (project_funnel_data (demo_project\<lparr>project_funnel_data := Some ''{}''\<rparr>))
        = Inr (JDict [])
    \<and> load_blob (demo_env\<lparr>json_loads := \<lambda>s. Inr (JDict [])\<rparr>)
          (project_email_sequence (demo_project\<lparr>project_funnel_data := Some ''{}''\<rparr>))
        = Inr (JDict [])
    \<and> \<not> truthy (JDict [])
    \<and> create_zip_export_writing writestr_ok
          (demo_env\<lparr>json_loads := \<lambda>s. Inr (JDict [])\<rparr>)
          (demo_project\<lparr>project_funnel_data := Some ''{}''\<rparr>)
        = Inl (ValueError ''No funnel data available for export''))
   \<and> (export_ready demo_env demo_project
    \<and> load_blob demo_env (project_funnel_data demo_project) = Inr demo_funnel
    \<and> load_blob demo_env (project_email_sequence demo_project) = Inr demo_emails
    \<and> (\<forall>name content. writestr_ok name content = Inr ())
    \<and> (\<exists>entries.
          create_zip_export_writing writestr_ok
            (demo_env\<lparr>render_template := \<lambda>name page. Inl (ExternalError name)\<rparr>) demo_project
            = Inr (exports_dir demo_env @ ''/'' @ str_int (project_id demo_project) @ ''.zip'',
                   entries)
        \<and> map fst entries =
            [''index.html'', ''style.css'', ''funnel.js'', ''upsell_1.html'', ''upsell_2.html'',
             ''downsell_1.html'', ''downsell_2.html'', ''thank_you.html'',
             ''emails/email_1.txt'', ''emails/email_2.txt'', ''emails/email_3.txt'',
             ''emails/README.txt'', ''README.txt'']
        \<and> map_of entries ''index.html''
            = Some (fallback_html ''Funnel Page'' ''Funnel Page'' '''' ''Continue'')))
   \<and> (render_template demo_env (''upsell'' @ ''.html'')
          (JDict [(''headline'', JStr ''Buy''), (''cta_text'', JStr ''Yes'')])
        = Inl (ExternalError ''upsell.html'')
    \<and> py_get (JDict [(''headline'', JStr ''Buy''), (''cta_text'', JStr ''Yes'')])
          ''headline'' (JStr ''Funnel Page'') = Inr (JStr ''Buy'')
    \<and> py_get (JDict [(''headline'', JStr ''Buy''), (''cta_text'', JStr ''Yes'')])
          ''description'' (JStr '''') = Inr (JStr '''')
    \<and> py_get (JDict [(''headline'', JStr ''Buy''), (''cta_text'', JStr ''Yes'')])
          ''cta_text'' (JStr ''Continue'') = Inr (JStr ''Yes'')
    \<and> create_html_page (render_template demo_env)
          (JDict [(''headline'', JStr ''Buy''), (''cta_text'', JStr ''Yes'')]) ''upsell''
        = Inr (fallback_html ''Buy'' ''Buy'' '''' ''Yes''))
   \<and> (\<exists>path entries.
          create_zip_export_writing writestr_ok demo_env demo_project
            = Inr (path, entries)
        \<and> makedirs demo_env = Inr ()
        \<and> load_blob demo_env (project_funnel_data demo_project) = Inr demo_funnel
        \<and> truthy demo_funnel \<and> is_dict demo_funnel
        \<and> open_zip demo_env path = Inr ()
        \<and> list_all (\<lambda>entry. writestr_ok (fst entry) (snd entry) = Inr ()) entries
        \<and> create_zip_export demo_env demo_project = Inr (path, entries))"
proof -
  let ?w = "writestr_ok"
  let ?r = "\<lambda>(name :: string) (page :: json). (Inl (ExternalError name) :: exn + string)"
  let ?e = "demo_env\<lparr>json_loads := \<lambda>s. Inr (JDict [])\<rparr>"
  let ?p = "demo_project\<lparr>project_funnel_data := Some ''{}''\<rparr>"
  let ?page = "JDict [(''headline'', JStr ''Buy''), (''cta_text'', JStr ''Yes'')]"
  have a1: "makedirs ?e = Inr ()" by (simp add: demo_env_def)
  have a2: "load_blob ?e (project_funnel_data ?p) = Inr (JDict [])"
    by (simp add: load_blob_def)
  have a3: "load_blob ?e (project_email_sequence ?p) = Inr (JDict [])"
    by (simp add: load_blob_def demo_project_def demo_emails_text_def)
  have a4: "\<not> truthy (JDict [])" by simp
  have a: "create_zip_export_writing ?w ?e ?p = Inl (ValueError ''No funnel data available for export'')"
    using export_raises_or_returns[where env = ?e and project = ?p and writestr = ?w,
            THEN conjunct1, rule_format, of "()" "JDict []" "JDict []"] a1 a2 a3 a4
    by blast
  have acc: "\<forall>name content. ?w name content = Inr ()" by (simp add: writestr_ok_def)
  from export_raises_or_returns[where env = demo_env and project = demo_project and writestr = ?w,
            THEN conjunct2, THEN conjunct1, rule_format, of demo_funnel demo_emails ?r]
       demo_ready demo_project_loads acc
  obtain entries where x: "create_zip_export_writing ?w (demo_env\<lparr>render_template := ?r\<rparr>) demo_project
            = Inr (exports_dir demo_env @ ''/'' @ str_int (project_id demo_project) @ ''.zip'', entries)"
    and n: "map fst entries =
              [''index.html'', ''style.css'', ''funnel.js'']
              @ map (\<lambda>i. ''upsell_'' @ str_nat (i + 1) @ ''.html'')
                  [0..<length (items_of demo_funnel ''upsells'')]
              @ map (\<lambda>i. ''downsell_'' @ str_nat (i + 1) @ ''.html'')
                  [0..<length (items_of demo_funnel ''downsells'')]
              @ [''thank_you.html'']
              @ (if truthy demo_emails
                 then map (\<lambda>i. ''emails/email_'' @ str_nat (i + 1) @ ''.txt'')
                        [0..<length (items_of demo_emails ''emails'')] @ [''emails/README.txt'']
                 else [])
              @ [''README.txt'']"
    and mp: "\<exists>main_page html. py_get demo_funnel ''main_page'' (JDict []) = Inr main_page
                \<and> create_html_page ?r main_page ''main'' = Inr html
                \<and> map_of entries ''index.html'' = Some html"
    by blast
  have n': "map fst entries =
            [''index.html'', ''style.css'', ''funnel.js'', ''upsell_1.html'', ''upsell_2.html'',
             ''downsell_1.html'', ''downsell_2.html'', ''thank_you.html'',
             ''emails/email_1.txt'', ''emails/email_2.txt'', ''emails/email_3.txt'',
             ''emails/README.txt'', ''README.txt'']"
    unfolding n by (simp add: demo_items demo_shapes str_nat_small)
  have g: "py_get demo_funnel ''main_page'' (JDict []) = Inr (JDict [])"
    by (simp add: demo_funnel_def)
  have h: "create_html_page ?r (JDict []) ''main''
             = Inr (fallback_html ''Funnel Page'' ''Funnel Page'' '''' ''Continue'')"
    by (simp add: create_html_page_def)
  from mp g h have i: "map_of entries ''index.html''
            = Some (fallback_html ''Funnel Page'' ''Funnel Page'' '''' ''Continue'')"
    by auto
  have b: "\<exists>entries.
          create_zip_export_writing ?w (demo_env\<lparr>render_template := ?r\<rparr>) demo_project
            = Inr (exports_dir demo_env @ ''/'' @ str_int (project_id demo_project) @ ''.zip'',
                   entries)
        \<and> map fst entries =
            [''index.html'', ''style.css'', ''funnel.js'', ''upsell_1.html'', ''upsell_2.html'',
             ''downsell_1.html'', ''downsell_2.html'', ''thank_you.html'',
             ''emails/email_1.txt'', ''emails/email_2.txt'', ''emails/email_3.txt'',
             ''emails/README.txt'', ''README.txt'']
        \<and> map_of entries ''index.html''
            = Some (fallback_html ''Funnel Page'' ''Funnel Page'' '''' ''Continue'')"
    by (intro exI[of _ entries] conjI) (rule x, rule n', rule i)
  have c1: "render_template demo_env (''upsell'' @ ''.html'') ?page = Inl (ExternalError ''upsell.html'')"
    by (simp add: demo_env_def)
  have c2: "py_get ?page ''headline'' (JStr ''Funnel Page'') = Inr (JStr ''Buy'')"
    and c3: "py_get ?page ''description'' (JStr '''') = Inr (JStr '''')"
    and c4: "py_get ?page ''cta_text'' (JStr ''Continue'') = Inr (JStr ''Yes'')"
    by simp_all
  have c: "create_html_page (render_template demo_env) ?page ''upsell''
             = Inr (fallback_html ''Buy'' ''Buy'' '''' ''Yes'')"
    using export_raises_or_returns[where env = demo_env and project = demo_project and writestr = ?w,
            THEN conjunct2, THEN conjunct2, THEN conjunct1, rule_format,
            of "render_template demo_env" "''upsell''" ?page "ExternalError ''upsell.html''" "JStr ''Buy''" "JStr ''''" "JStr ''Yes''"]
      c1 c2 c3 c4
    by simp
  have same: "demo_env\<lparr>render_template := ?r\<rparr> = demo_env" by (simp add: demo_env_def)
  from x obtain path where y: "create_zip_export_writing ?w demo_env demo_project = Inr (path, entries)"
    unfolding same by blast
  note k = export_raises_or_returns[where env = demo_env and project = demo_project and writestr = ?w,
            THEN conjunct2, THEN conjunct2, THEN conjunct2, rule_format, OF y]
  have d: "(\<exists>u. open_zip demo_env path = Inr u)"
    "list_all (\<lambda>entry. ?w (fst entry) (snd entry) = Inr ()) entries"
    "create_zip_export demo_env demo_project = Inr (path, entries)"
    using k by simp_all
  from d(1) have d1: "open_zip demo_env path = Inr ()" by simp
  have "\<exists>path entries.
          create_zip_export_writing ?w demo_env demo_project = Inr (path, entries)
        \<and> makedirs demo_env = Inr ()
        \<and> load_blob demo_env (project_funnel_data demo_project) = Inr demo_funnel
        \<and> truthy demo_funnel \<and> is_dict demo_funnel
        \<and> open_zip demo_env path = Inr ()
        \<and> list_all (\<lambda>entry. ?w (fst entry) (snd entry) = Inr ()) entries
        \<and> create_zip_export demo_env demo_project = Inr (path, entries)"
    using y demo_env_fields(1) demo_project_loads(1) demo_shapes(4) d1 d(2,3)
    by (intro exI[of _ path] exI[of _ entries] conjI) (simp_all add: demo_funnel_def)
  with a1 a2 a3 a4 a demo_ready demo_project_loads acc b c1 c2 c3 c4 c show ?thesis
    by (intro conjI) assumption+
qed

text \<open>
  Two projects that have funnel data and whose export raises. In the first the stored email
  sequence lists an email that is a text, not an object: \<open>email.get\<close> raises
  \<open>AttributeError\<close>. In the second the disk is full when \<open>funnel.js\<close> is written:
  \<open>writestr\<close> raises \<open>OSError\<close>.
\<close>

theorem export_fault_counterexample:
  "load_blob demo_env
       (project_funnel_data (demo_project\<lparr>project_email_sequence := Some bad_emails_text\<rparr>))
     = Inr demo_funnel
   \<and> truthy demo_funnel
   \<and> create_zip_export_writing writestr_ok demo_env
         (demo_project\<lparr>project_email_sequence := Some bad_emails_text\<rparr>)
       = Inl (no_attribute (JStr ''Hi'') ''get'')
   \<and> load_blob demo_env (project_funnel_data demo_project) = Inr demo_funnel
   \<and> create_zip_export_writing writestr_full_disk demo_env demo_project
       = Inl (OSError ''[Errno 28] No space left on device'')"
proof -
  have l: "load_blob demo_env
       (project_funnel_data (demo_project\<lparr>project_email_sequence := Some bad_emails_text\<rparr>))
     = Inr demo_funnel"
    by (simp add: demo_project_def demo_loads)
  have c: "create_zip_export_writing writestr_ok demo_env
         (demo_project\<lparr>project_email_sequence := Some bad_emails_text\<rparr>)
       = Inl (no_attribute (JStr ''Hi'') ''get'')"
    unfolding create_zip_export_writing_def Let_def
    by (simp add: demo_project_def demo_loads demo_env_fields demo_funnel_def bad_emails_def
          create_html_page_def generate_js_def page_file_def create_thank_you_page_def
          email_files_writing_def email_file_def write_entry_def writestr_ok_def)
  have d: "create_zip_export_writing writestr_full_disk demo_env demo_project
       = Inl (OSError ''[Errno 28] No space left on device'')"
    unfolding create_zip_export_writing_def Let_def
    by (simp add: demo_project_def demo_loads demo_env_fields demo_funnel_def
          create_html_page_def generate_js_def write_entry_def writestr_full_disk_def)
  show ?thesis
    by (intro conjI) (rule l, rule demo_shapes(4), rule c, rule demo_project_loads(1), rule d)
qed

end
